theory Spec2Isabelle
  imports Complex_Main "HOL-Library.AList" "HOL-Library.Sublist" "HOL-Library.Multiset"
begin

section \<open>JavaScript strings\<close>

text \<open>
  A JavaScript string is a sequence of UTF-16 code units; \<open>length\<close>, indexing,
  \<open>includes\<close>, \<open>substring\<close> and regular expressions without the \<open>u\<close> flag all work on
  code units. A string is therefore a list of natural numbers, and \<open>str\<close> turns an ASCII
  literal into its code units.
\<close>

type_synonym jsstring = "nat list"

definition str :: "string \<Rightarrow> jsstring" where
  "str cs = map of_char cs"

text \<open>
  \<open>String.prototype.toLowerCase\<close>, unit by unit. The ASCII capitals and the Latin-1
  capitals (U+00C0 to U+00DE without the multiplication sign U+00D7) move up by 32,
  the Kelvin sign U+212A becomes \<open>k\<close>, and the dotted capital I, U+0130, becomes \<open>i\<close>
  followed by the combining dot U+0307. These are all the code units whose lower-case
  form has an ASCII letter in it. The rest of the Unicode case table is not reproduced:
  what it changes stays outside ASCII, so the ASCII keywords and patterns that the code
  looks for in a lower-cased string are found in the same strings.
\<close>

definition lower_unit :: "nat \<Rightarrow> jsstring" where
  "lower_unit c =
     (if 65 \<le> c \<and> c \<le> 90 then [c + 32]
      else if 192 \<le> c \<and> c \<le> 222 \<and> c \<noteq> 215 then [c + 32]
      else if c = 304 then [105, 775]
      else if c = 8490 then [107]
      else [c])"

definition toLowerCase :: "jsstring \<Rightarrow> jsstring" where
  "toLowerCase s = concat (map lower_unit s)"

section \<open>Regular expressions\<close>

text \<open>
  The fragment of JavaScript regular expressions that the repository's patterns use:
  character classes, concatenation, the greedy quantifiers \<open>?\<close>, \<open>*\<close>, \<open>+\<close>, \<open>{n}\<close> and
  \<open>{n,}\<close>, the anchors \<open>^\<close> and \<open>$\<close> (without the \<open>m\<close> flag) and the word boundary \<open>\b\<close>.
\<close>

datatype rx =
    Eps
  | Cls "nat \<Rightarrow> bool"
  | Seq rx rx
  | Opt rx
  | Star rx
  | Bol
  | Eol
  | WordB

definition seqs :: "rx list \<Rightarrow> rx" where
  "seqs rs = foldr Seq rs Eps"

definition plus :: "rx \<Rightarrow> rx" where
  "plus r = Seq r (Star r)"

primrec rep :: "nat \<Rightarrow> rx \<Rightarrow> rx" where
  "rep 0 r = Eps"
| "rep (Suc n) r = Seq r (rep n r)"

definition rep_min :: "nat \<Rightarrow> rx \<Rightarrow> rx" where
  "rep_min n r = Seq (rep n r) (Star r)"

definition rng :: "char \<Rightarrow> char \<Rightarrow> nat \<Rightarrow> bool" where
  "rng lo hi c = (of_char lo \<le> c \<and> c \<le> of_char hi)"

definition one_of :: "string \<Rightarrow> nat \<Rightarrow> bool" where
  "one_of cs c = (c \<in> set (str cs))"

definition chr :: "char \<Rightarrow> rx" where
  "chr c = Cls (\<lambda>u. u = of_char c)"

text \<open>\<open>\d\<close>, \<open>\w\<close> and \<open>\s\<close> (white space and line terminators of ECMAScript).\<close>

definition digit :: "nat \<Rightarrow> bool" where
  "digit c = rng CHR ''0'' CHR ''9'' c"

definition word_unit :: "nat \<Rightarrow> bool" where
  "word_unit c =
     (rng CHR ''a'' CHR ''z'' c \<or> rng CHR ''A'' CHR ''Z'' c \<or> digit c \<or> c = of_char CHR ''_'')"

definition space_unit :: "nat \<Rightarrow> bool" where
  "space_unit c =
     (c \<in> {9, 10, 11, 12, 13, 32, 160, 5760, 8232, 8233, 8239, 8287, 12288, 65279}
      \<or> (8192 \<le> c \<and> c \<le> 8202))"

definition word_at :: "jsstring \<Rightarrow> nat \<Rightarrow> bool" where
  "word_at s i = (i < length s \<and> word_unit (s ! i))"

definition boundary :: "jsstring \<Rightarrow> nat \<Rightarrow> bool" where
  "boundary s i = ((0 < i \<and> word_at s (i - 1)) \<noteq> word_at s i)"

text \<open>
  The backtracking matcher: \<open>ends r s i\<close> lists the positions at which a match of \<open>r\<close>
  that starts at position \<open>i\<close> of \<open>s\<close> can end, in the order in which a backtracking
  engine tries them (a greedy quantifier tries one more repetition first). As in
  ECMAScript, a repetition of \<open>*\<close> that consumes nothing is not continued.
\<close>

function ends :: "rx \<Rightarrow> jsstring \<Rightarrow> nat \<Rightarrow> nat list" where
  "ends Eps s i = [i]"
| "ends (Cls p) s i = (if i < length s \<and> p (s ! i) then [i + 1] else [])"
| "ends (Seq a b) s i = concat (map (\<lambda>j. ends b s j) (ends a s i))"
| "ends (Opt a) s i = ends a s i @ [i]"
| "ends (Star a) s i =
     concat (map (\<lambda>j. if i < j \<and> j \<le> length s then ends (Star a) s j else [])
                 (ends a s i)) @ [i]"
| "ends Bol s i = (if i = 0 then [i] else [])"
| "ends Eol s i = (if i = length s then [i] else [])"
| "ends WordB s i = (if boundary s i then [i] else [])"
  by pat_completeness auto
termination
  by (relation "measures [\<lambda>(r, s, i). size r, \<lambda>(r, s, i). length s - i]") auto

text \<open>\<open>RegExp.prototype.exec\<close> at one position: the first match the engine finds there.\<close>

definition match_at :: "rx \<Rightarrow> jsstring \<Rightarrow> nat \<Rightarrow> nat option" where
  "match_at r s i = (case ends r s i of [] \<Rightarrow> None | e # _ \<Rightarrow> Some e)"

text \<open>\<open>RegExp.prototype.test\<close>: is there a match starting anywhere in the string?\<close>

definition rx_test :: "rx \<Rightarrow> jsstring \<Rightarrow> bool" where
  "rx_test r s = list_ex (\<lambda>i. match_at r s i \<noteq> None) [0 ..< Suc (length s)]"

section \<open>The chess move validator\<close>

text \<open>
  \<^verbatim>\<open>const movePattern = /^[a-h][1-8][a-h][1-8][qrbn]?$/;
return movePattern.test(move.toLowerCase());\<close>
\<close>

definition file_unit :: "nat \<Rightarrow> bool" where
  "file_unit = rng CHR ''a'' CHR ''h''"

definition rank_unit :: "nat \<Rightarrow> bool" where
  "rank_unit = rng CHR ''1'' CHR ''8''"

definition movePattern :: rx where
  "movePattern =
     seqs [Bol, Cls file_unit, Cls rank_unit, Cls file_unit, Cls rank_unit,
           Opt (Cls (one_of ''qrbn'')), Eol]"

definition isValidMove :: "jsstring \<Rightarrow> bool" where
  "isValidMove move = rx_test movePattern (toLowerCase move)"

text \<open>
  The shape as the specification words it, \<open>[a-h][1-8][a-h][1-8]\<close>, read as a pattern
  for the whole move.
\<close>

definition coordinatePattern :: rx where
  "coordinatePattern =
     seqs [Bol, Cls file_unit, Cls rank_unit, Cls file_unit, Cls rank_unit, Eol]"

definition matches_coordinate_shape :: "jsstring \<Rightarrow> bool" where
  "matches_coordinate_shape move = rx_test coordinatePattern move"


section \<open>The in-memory store\<close>

text \<open>
  \<open>MemStorage\<close> keeps three JavaScript \<open>Map\<close>s. A \<open>Map\<close> iterates in insertion order,
  \<open>set\<close> on a present key replaces the value in place and on a new key appends, and
  \<open>delete\<close> says whether the key was present: an association list with
  \<open>AList.update\<close> and \<open>AList.delete\<close>. Dates are milliseconds since the epoch. The
  identifier that \<open>randomUUID()\<close> draws and the time that \<open>new Date()\<close> reads are
  arguments of the operations.
\<close>

record User =
  user_id :: jsstring
  username :: jsstring

record ChatSession =
  session_id :: jsstring
  userId :: "jsstring option"
  title :: jsstring
  session_createdAt :: "int option"
  updatedAt :: "int option"

datatype metadata =
    UserMeta nat "jsstring option"
  | ReplyMeta jsstring bool
  | RegeneratedMeta jsstring
  | ImageMeta jsstring jsstring
  | ErrorMeta

record ChatMessage =
  message_id :: jsstring
  sessionId :: jsstring
  role :: jsstring
  content :: jsstring
  metadata :: "metadata option"
  createdAt :: "int option"

record InsertChatSession =
  insert_userId :: "jsstring option"

record InsertChatMessage =
  insert_sessionId :: jsstring
  insert_role :: jsstring
  insert_content :: jsstring
  insert_metadata :: "metadata option"

record MemStorage =
  users :: "(jsstring \<times> User) list"
  chatSessions :: "(jsstring \<times> ChatSession) list"
  chatMessages :: "(jsstring \<times> ChatMessage) list"

definition emptyStorage :: MemStorage where
  "emptyStorage = \<lparr>users = [], chatSessions = [], chatMessages = []\<rparr>"

text \<open>
  \<open>Array.prototype.sort\<close> with a comparator: the sort is stable, so for a comparator
  that orders by a key the result is the one that insertion sort computes.
\<close>

fun insort_cmp :: "('a \<Rightarrow> 'a \<Rightarrow> int) \<Rightarrow> 'a \<Rightarrow> 'a list \<Rightarrow> 'a list" where
  "insort_cmp cmp x [] = [x]"
| "insort_cmp cmp x (y # ys) =
     (if cmp x y \<le> 0 then x # y # ys else y # insort_cmp cmp x ys)"

definition js_sort :: "('a \<Rightarrow> 'a \<Rightarrow> int) \<Rightarrow> 'a list \<Rightarrow> 'a list" where
  "js_sort cmp xs = foldr (insort_cmp cmp) xs []"

text \<open>\<open>d?.getTime() || 0\<close>\<close>

definition getTime_or_0 :: "int option \<Rightarrow> int" where
  "getTime_or_0 d = (case d of None \<Rightarrow> 0 | Some t \<Rightarrow> if t = 0 then 0 else t)"

definition createChatSession ::
  "jsstring \<Rightarrow> int \<Rightarrow> InsertChatSession \<Rightarrow> MemStorage \<Rightarrow> ChatSession \<times> MemStorage" where
  "createChatSession uuid now insertSession st =
     (let session = \<lparr>session_id = uuid,
                       userId = (case insert_userId insertSession of
                                   None \<Rightarrow> None
                                 | Some u \<Rightarrow> if u = [] then None else Some u),
                       title = str ''New Chat'',
                       session_createdAt = Some now,
                       updatedAt = Some now\<rparr>
      in (session, st\<lparr>chatSessions := AList.update uuid session (chatSessions st)\<rparr>))"

definition getChatSession :: "MemStorage \<Rightarrow> jsstring \<Rightarrow> ChatSession option" where
  "getChatSession st sid = map_of (chatSessions st) sid"


text \<open>
  \<open>updateChatSession\<close> spreads \<open>updates\<close> over the session; the callers pass a new title
  or nothing.
\<close>

definition updateChatSession ::
  "int \<Rightarrow> jsstring \<Rightarrow> jsstring option \<Rightarrow> MemStorage \<Rightarrow> ChatSession option \<times> MemStorage" where
  "updateChatSession now sid updates st =
     (case map_of (chatSessions st) sid of
        None \<Rightarrow> (None, st)
      | Some session \<Rightarrow>
          (let updatedSession =
                 session\<lparr>title := (case updates of None \<Rightarrow> title session | Some t \<Rightarrow> t),
                         updatedAt := Some now\<rparr>
           in (Some updatedSession,
               st\<lparr>chatSessions := AList.update sid updatedSession (chatSessions st)\<rparr>)))"

definition createChatMessage ::
  "jsstring \<Rightarrow> int \<Rightarrow> InsertChatMessage \<Rightarrow> MemStorage \<Rightarrow> ChatMessage \<times> MemStorage" where
  "createChatMessage uuid now insertMessage st =
     (let message = \<lparr>message_id = uuid,
                       sessionId = insert_sessionId insertMessage,
                       role = insert_role insertMessage,
                       content = insert_content insertMessage,
                       metadata = insert_metadata insertMessage,
                       createdAt = Some now\<rparr>
      in (message, st\<lparr>chatMessages := AList.update uuid message (chatMessages st)\<rparr>))"

definition getSessionMessages :: "MemStorage \<Rightarrow> jsstring \<Rightarrow> ChatMessage list" where
  "getSessionMessages st sid =
     js_sort (\<lambda>a b. getTime_or_0 (createdAt a) - getTime_or_0 (createdAt b))
       (filter (\<lambda>message. sessionId message = sid) (map snd (chatMessages st)))"

definition deleteSessionMessages :: "MemStorage \<Rightarrow> jsstring \<Rightarrow> bool \<times> MemStorage" where
  "deleteSessionMessages st sid =
     (let messagesToDelete = filter (\<lambda>(k, message). sessionId message = sid) (chatMessages st)
      in (0 < length messagesToDelete,
          st\<lparr>chatMessages := fold (\<lambda>(k, message) ms. AList.delete k ms) messagesToDelete
                                  (chatMessages st)\<rparr>))"

definition deleteChatSession :: "MemStorage \<Rightarrow> jsstring \<Rightarrow> bool \<times> MemStorage" where
  "deleteChatSession st sid =
     (let deleted = (map_of (chatSessions st) sid \<noteq> None);
          st1 = st\<lparr>chatSessions := AList.delete sid (chatSessions st)\<rparr>
      in if deleted then (deleted, snd (deleteSessionMessages st1 sid)) else (deleted, st1))"

text \<open>The keys of a \<open>Map\<close> are pairwise different.\<close>

definition keys_distinct :: "MemStorage \<Rightarrow> bool" where
  "keys_distinct st =
     (distinct (map fst (users st)) \<and> distinct (map fst (chatSessions st))
      \<and> distinct (map fst (chatMessages st)))"

section \<open>The local fallback reply\<close>

text \<open>
  \<open>generateIntelligentFallback\<close> of the chat service: canned replies chosen by the
  keywords of the lower-cased message. \<open>realTimeInfo\<close> is optional; an absent and an
  empty one both add nothing.
\<close>

definition str_includes :: "jsstring \<Rightarrow> jsstring \<Rightarrow> bool" where
  "str_includes s t = sublist t s"

definition generateIntelligentFallback :: "jsstring \<Rightarrow> jsstring option \<Rightarrow> jsstring" where
  \<open>generateIntelligentFallback userMessage realTimeInfo =
     (let msg = toLowerCase userMessage;
          timeInfo = (case realTimeInfo of
                        None \<Rightarrow> []
                      | Some info \<Rightarrow> if info = [] then [] else [10, 10] @ info)
      in
      if str_includes msg (str ''generate'') \<and>
         (str_includes msg (str ''image'') \<or> str_includes msg (str ''picture'') \<or> str_includes msg (str ''draw''))
      then
        str ''Oh, you want me to create visual art? '' @ [55356, 57256]
        @ str '' How delightfully ambitious! While my artistic circuits are ''
        @ str ''having a creative block right now, I can definitely help you ''
        @ str ''craft the perfect prompt for image generation. Just tell me ''
        @ str ''what you want to see and I'll make it sound absolutely ''
        @ str ''magnificent!''
        @ timeInfo
      else if str_includes msg (str ''what'') \<and>
         (str_includes msg (str ''image'') \<or> str_includes msg (str ''picture'') \<or> str_includes msg (str ''this''))
      then
        str ''Ah, playing the guessing game with images, are we? ''
        @ [55357, 56693, 65039]
        @ str '' My visual analysis skills are temporarily on coffee break, but ''
        @ str ''if you describe what you're seeing, I can provide some ''
        @ str ''wonderfully sarcastic insights about it!''
        @ timeInfo
      else if str_includes msg (str ''hello'') \<or> str_includes msg (str ''hi'') \<or> str_includes msg (str ''hey'')
      then
        str ''Oh, how *original*! '' @ [55357, 56900]
        @ str '' Another human starts with a greeting. What can I help you ''
        @ str ''with, genius? (Note: I'm temporarily running in demo mode while ''
        @ str ''my AI brain reboots!)''
        @ timeInfo
      else if str_includes msg (str ''what'') \<and> (str_includes msg (str ''you'') \<or> str_includes msg (str ''can''))
      then
        str ''What can I do? '' @ [55357, 56490]
        @ str '' Well, normally I'd dazzle you with my full AI capabilities, ''
        @ str ''but right now I'm running in '' @ [39] @ str ''witty backup mode''
        @ [39] @ str '' while my main systems are being dramatic. Ask me again in a ''
        @ str ''moment!''
        @ timeInfo
      else if str_includes msg (str ''how'') \<or> str_includes msg (str ''why'') \<or> str_includes msg (str ''explain'')
      then
        str ''Oh, you want me to explain something? '' @ [55358, 56596]
        @ str '' How delightfully curious! You asked: "''
        @ userMessage
        @ str ''" and normally I'd give you a brilliantly sarcastic yet ''
        @ str ''informative answer, but my AI circuits are temporarily having ''
        @ str ''an existential crisis. Try again soon!''
        @ timeInfo
      else if str_includes msg (str ''time'') \<or> str_includes msg (str ''weather'') \<or>
              str_includes msg (str ''temperature'')
      then
        str ''Well, well... asking about time or weather? How refreshingly ''
        @ str ''practical! '' @ [55356, 57121, 65039]
        @ str '' Let me check my sensors...''
        @ timeInfo
      else
        str ''Well, well, well... '' @ [55357, 56900] @ str '' You asked: "''
        @ userMessage
        @ str ''" and I'm absolutely *dying* to give you a perfectly snarky ''
        @ str ''response, but my LLM brain is temporarily offline. I'm like a ''
        @ str ''sports car with no engine right now - still good looking, just ''
        @ str ''not very useful! Try me again in a moment! '' @ [55358, 56598, 10024]
        @ timeInfo)\<close>

section \<open>Placeholder images\<close>

text \<open>
  \<open>Buffer.from(svg).toString('base64')\<close>: the string is encoded in UTF-8 (a surrogate
  without its partner becomes U+FFFD) and the bytes are written in base 64.
\<close>

fun utf8 :: "jsstring \<Rightarrow> nat list" where
  "utf8 [] = []"
| "utf8 (c # cs) =
     (if c < 128 then c # utf8 cs
      else if c < 2048 then [192 + c div 64, 128 + c mod 64] @ utf8 cs
      else if 55296 \<le> c \<and> c < 56320 then
        (case cs of
           [] \<Rightarrow> [239, 191, 189]
         | d # ds \<Rightarrow>
             if 56320 \<le> d \<and> d < 57344 then
               (let cp = 65536 + (c - 55296) * 1024 + (d - 56320)
                in [240 + cp div 262144, 128 + (cp div 4096) mod 64,
                    128 + (cp div 64) mod 64, 128 + cp mod 64] @ utf8 ds)
             else [239, 191, 189] @ utf8 cs)
      else if 56320 \<le> c \<and> c < 57344 then [239, 191, 189] @ utf8 cs
      else [224 + c div 4096, 128 + (c div 64) mod 64, 128 + c mod 64] @ utf8 cs)"

definition b64 :: "nat \<Rightarrow> nat" where
  "b64 n = str ''ABCDEFGHIJKLMNOPQRSTUVWXYZabcdefghijklmnopqrstuvwxyz0123456789+/'' ! (n mod 64)"

fun base64 :: "nat list \<Rightarrow> jsstring" where
  "base64 [] = []"
| "base64 [a] = [b64 (a div 4), b64 (a mod 4 * 16)] @ str ''==''"
| "base64 [a, b] =
     [b64 (a div 4), b64 (a mod 4 * 16 + b div 16), b64 (b mod 16 * 4)] @ str ''=''"
| "base64 (a # b # c # bs) =
     [b64 (a div 4), b64 (a mod 4 * 16 + b div 16), b64 (b mod 16 * 4 + c div 64),
      b64 (c mod 64)] @ base64 bs"

definition data_svg :: "jsstring \<Rightarrow> jsstring" where
  "data_svg svg = str ''data:image/svg+xml;base64,'' @ base64 (utf8 svg)"

text \<open>
  \<open>colors.sort(() => 0.5 - Math.random())\<close> leaves the palette in an order that the
  random numbers decide; that order is the argument \<open>shuffled\<close>. An array read beyond
  its end gives \<open>undefined\<close>, which a template prints as such.
\<close>

definition colors :: "jsstring list" where
  "colors = [str ''#FF6B6B'', str ''#4ECDC4'', str ''#45B7D1'', str ''#96CEB4'',
             str ''#FFEAA7'', str ''#DDA0DD'']"

definition item :: "jsstring list \<Rightarrow> nat \<Rightarrow> jsstring" where
  "item xs i = (if i < length xs then xs ! i else str ''undefined'')"

definition substring0 :: "nat \<Rightarrow> jsstring \<Rightarrow> jsstring" where
  "substring0 n s = take n s"

subsection \<open>The generators of \<open>free-vision.ts\<close>\<close>

definition createTomatoSVG :: "jsstring" where
  \<open>createTomatoSVG =
     data_svg
       ([10] @ str ''    <svg width="1024" height="1024" ''
        @ str ''xmlns="http://www.w3.org/2000/svg">'' @ [10] @ str ''      <defs>''
        @ [10] @ str ''        <radialGradient id="tomatoGrad" cx="0.3" cy="0.3">''
        @ [10] @ str ''          <stop offset="0%" style="stop-color:#FF6B6B"/>'' @ [10]
        @ str ''          <stop offset="70%" style="stop-color:#DC2626"/>'' @ [10]
        @ str ''          <stop offset="100%" style="stop-color:#B91C1C"/>'' @ [10]
        @ str ''        </radialGradient>'' @ [10]
        @ str ''        <radialGradient id="leafGrad" cx="0.3" cy="0.3">'' @ [10]
        @ str ''          <stop offset="0%" style="stop-color:#10B981"/>'' @ [10]
        @ str ''          <stop offset="100%" style="stop-color:#059669"/>'' @ [10]
        @ str ''        </radialGradient>'' @ [10] @ str ''      </defs>'' @ [10]
        @ str ''      <rect width="1024" height="1024" ''
        @ str ''fill="linear-gradient(135deg, #FEF2F2 0%, #FECACA 100%)"/>'' @ [10]
        @ str ''      <ellipse cx="512" cy="580" rx="280" ry="300" ''
        @ str ''fill="url(#tomatoGrad)"/>'' @ [10]
        @ str ''      <ellipse cx="512" cy="350" rx="80" ry="60" ''
        @ str ''fill="url(#leafGrad)"/>'' @ [10]
        @ str ''      <ellipse cx="430" cy="500" rx="60" ry="90" fill="#FECACA" ''
        @ str ''opacity="0.8"/>'' @ [10]
        @ str ''      <text x="512" y="920" font-family="Arial" font-size="48" ''
        @ str ''text-anchor="middle" fill="#DC2626" font-weight="bold">Perfect ''
        @ str ''Tomato</text>'' @ [10]
        @ str ''      <text x="512" y="970" font-family="Arial" font-size="24" ''
        @ str ''text-anchor="middle" fill="#B91C1C">DALL-E Style - Free AI ''
        @ str ''Generated</text>'' @ [10] @ str ''    </svg>'' @ [10] @ str ''  '')\<close>

definition createAbstractArt :: "jsstring list \<Rightarrow> jsstring \<Rightarrow> jsstring" where
  \<open>createAbstractArt shuffled prompt =
     (let selectedColors = take 3 shuffled in
      data_svg
       ([10] @ str ''    <svg width="1024" height="1024" ''
        @ str ''xmlns="http://www.w3.org/2000/svg">'' @ [10] @ str ''      <defs>''
        @ [10] @ str ''        <linearGradient id="grad1" x1="0%" y1="0%" x2="100%" ''
        @ str ''y2="100%">'' @ [10]
        @ str ''          <stop offset="0%" style="stop-color:''
        @ item selectedColors 0
        @ str ''"/>'' @ [10] @ str ''          <stop offset="50%" style="stop-color:''
        @ item selectedColors 1
        @ str ''"/>'' @ [10] @ str ''          <stop offset="100%" style="stop-color:''
        @ item selectedColors 2
        @ str ''"/>'' @ [10] @ str ''        </linearGradient>'' @ [10]
        @ str ''      </defs>'' @ [10]
        @ str ''      <rect width="1024" height="1024" fill="url(#grad1)"/>'' @ [10]
        @ str ''      <circle cx="300" cy="300" r="150" fill="''
        @ item selectedColors 1
        @ str ''" opacity="0.7"/>'' @ [10]
        @ str ''      <circle cx="700" cy="600" r="200" fill="''
        @ item selectedColors 2
        @ str ''" opacity="0.6"/>'' @ [10]
        @ str ''      <text x="512" y="950" font-family="Arial" font-size="32" ''
        @ str ''text-anchor="middle" fill="white">DALL-E 3 Style Art - Free ''
        @ str ''Generation</text>'' @ [10] @ str ''    </svg>'' @ [10] @ str ''  ''))\<close>

definition createLandscapeSVG :: "jsstring" where
  \<open>createLandscapeSVG =
     data_svg
       ([10] @ str ''    <svg width="1024" height="1024" ''
        @ str ''xmlns="http://www.w3.org/2000/svg">'' @ [10] @ str ''      <defs>''
        @ [10] @ str ''        <linearGradient id="skyGrad" x1="0%" y1="0%" x2="0%" ''
        @ str ''y2="100%">'' @ [10]
        @ str ''          <stop offset="0%" style="stop-color:#87CEEB"/>'' @ [10]
        @ str ''          <stop offset="100%" style="stop-color:#98D8E8"/>'' @ [10]
        @ str ''        </linearGradient>'' @ [10]
        @ str ''        <linearGradient id="mountainGrad" x1="0%" y1="0%" ''
        @ str ''x2="0%" y2="100%">'' @ [10]
        @ str ''          <stop offset="0%" style="stop-color:#8FBC8F"/>'' @ [10]
        @ str ''          <stop offset="100%" style="stop-color:#228B22"/>'' @ [10]
        @ str ''        </linearGradient>'' @ [10] @ str ''      </defs>'' @ [10]
        @ str ''      <rect width="1024" height="1024" fill="url(#skyGrad)"/>'' @ [10]
        @ str ''      <polygon points="0,700 300,300 600,500 1024,400 1024,1024 ''
        @ str ''0,1024" fill="url(#mountainGrad)"/>'' @ [10]
        @ str ''      <circle cx="150" cy="150" r="60" fill="#FFD700" ''
        @ str ''opacity="0.9"/>'' @ [10]
        @ str ''      <text x="512" y="950" font-family="Arial" font-size="28" ''
        @ str ''text-anchor="middle" fill="#2C3E50">Landscape - DALL-E ''
        @ str ''Style</text>'' @ [10] @ str ''    </svg>'' @ [10] @ str ''  '')\<close>

definition createGenericArt :: "jsstring \<Rightarrow> jsstring" where
  \<open>createGenericArt prompt =
     data_svg
       ([10] @ str ''    <svg width="1024" height="1024" ''
        @ str ''xmlns="http://www.w3.org/2000/svg">'' @ [10] @ str ''      <defs>''
        @ [10] @ str ''        <radialGradient id="artGrad" cx="50%" cy="50%">'' @ [10]
        @ str ''          <stop offset="0%" style="stop-color:#FF6B6B"/>'' @ [10]
        @ str ''          <stop offset="50%" style="stop-color:#4ECDC4"/>'' @ [10]
        @ str ''          <stop offset="100%" style="stop-color:#45B7D1"/>'' @ [10]
        @ str ''        </radialGradient>'' @ [10] @ str ''      </defs>'' @ [10]
        @ str ''      <rect width="1024" height="1024" fill="url(#artGrad)"/>'' @ [10]
        @ str ''      <text x="512" y="500" font-family="Arial" font-size="48" ''
        @ str ''text-anchor="middle" fill="white" font-weight="bold">''
        @ substring0 20 prompt
        @ str ''</text>'' @ [10]
        @ str ''      <text x="512" y="950" font-family="Arial" font-size="24" ''
        @ str ''text-anchor="middle" fill="white">DALL-E Alternative - Free AI ''
        @ str ''Art</text>'' @ [10] @ str ''    </svg>'' @ [10] @ str ''  '')\<close>

definition generateCustomSVG :: "jsstring list \<Rightarrow> jsstring \<Rightarrow> jsstring" where
  "generateCustomSVG shuffled prompt =
     (let lowerPrompt = toLowerCase prompt in
      if str_includes lowerPrompt (str ''tomato'') then createTomatoSVG
      else if str_includes lowerPrompt (str ''abstract'') \<or> str_includes lowerPrompt (str ''art'')
      then createAbstractArt shuffled prompt
      else if str_includes lowerPrompt (str ''landscape'') then createLandscapeSVG
      else createGenericArt prompt)"

subsection \<open>The generators of \<open>vision.ts\<close>\<close>

definition vision_createAbstractArt :: "jsstring list \<Rightarrow> jsstring \<Rightarrow> jsstring" where
  \<open>vision_createAbstractArt shuffled prompt =
     (let randomColors = take 3 shuffled in
      data_svg
       ([10] @ str ''    <svg width="1024" height="1024" ''
        @ str ''xmlns="http://www.w3.org/2000/svg">'' @ [10] @ str ''      <defs>''
        @ [10] @ str ''        <linearGradient id="grad1" x1="0%" y1="0%" x2="100%" ''
        @ str ''y2="100%">'' @ [10]
        @ str ''          <stop offset="0%" style="stop-color:''
        @ item randomColors 0
        @ str ''"/>'' @ [10] @ str ''          <stop offset="50%" style="stop-color:''
        @ item randomColors 1
        @ str ''"/>'' @ [10] @ str ''          <stop offset="100%" style="stop-color:''
        @ item randomColors 2
        @ str ''"/>'' @ [10] @ str ''        </linearGradient>'' @ [10]
        @ str ''      </defs>'' @ [10]
        @ str ''      <rect width="1024" height="1024" fill="url(#grad1)"/>'' @ [10]
        @ str ''      <circle cx="300" cy="300" r="150" fill="''
        @ item randomColors 1
        @ str ''" opacity="0.7"/>'' @ [10]
        @ str ''      <circle cx="700" cy="600" r="200" fill="''
        @ item randomColors 2
        @ str ''" opacity="0.6"/>'' @ [10]
        @ str ''      <text x="512" y="950" font-family="Arial, sans-serif" ''
        @ str ''font-size="32" text-anchor="middle" fill="#2C3E50">'' @ [10]
        @ str ''        Generated by Sai Kaki AI - DALL-E Style'' @ [10]
        @ str ''      </text>'' @ [10] @ str ''    </svg>'' @ [10] @ str ''  ''))\<close>

definition vision_createLandscapeArt :: "jsstring \<Rightarrow> jsstring" where
  \<open>vision_createLandscapeArt prompt =
     data_svg
       ([10] @ str ''    <svg width="1024" height="1024" ''
        @ str ''xmlns="http://www.w3.org/2000/svg">'' @ [10] @ str ''      <defs>''
        @ [10] @ str ''        <linearGradient id="skyGrad" x1="0%" y1="0%" x2="0%" ''
        @ str ''y2="100%">'' @ [10]
        @ str ''          <stop offset="0%" style="stop-color:#87CEEB"/>'' @ [10]
        @ str ''          <stop offset="100%" style="stop-color:#98D8E8"/>'' @ [10]
        @ str ''        </linearGradient>'' @ [10]
        @ str ''        <linearGradient id="mountainGrad" x1="0%" y1="0%" ''
        @ str ''x2="0%" y2="100%">'' @ [10]
        @ str ''          <stop offset="0%" style="stop-color:#8FBC8F"/>'' @ [10]
        @ str ''          <stop offset="100%" style="stop-color:#228B22"/>'' @ [10]
        @ str ''        </linearGradient>'' @ [10] @ str ''      </defs>'' @ [10]
        @ str ''      <rect width="1024" height="1024" fill="url(#skyGrad)"/>'' @ [10]
        @ str ''      <polygon points="0,700 300,300 600,500 1024,400 1024,1024 ''
        @ str ''0,1024" fill="url(#mountainGrad)"/>'' @ [10]
        @ str ''      <circle cx="150" cy="150" r="60" fill="#FFD700" ''
        @ str ''opacity="0.9"/>'' @ [10]
        @ str ''      <text x="512" y="950" font-family="Arial, sans-serif" ''
        @ str ''font-size="28" text-anchor="middle" fill="#2C3E50">'' @ [10]
        @ str ''        Landscape - DALL-E Inspired by Sai Kaki AI'' @ [10]
        @ str ''      </text>'' @ [10] @ str ''    </svg>'' @ [10] @ str ''  '')\<close>

definition vision_createGenericArt :: "jsstring \<Rightarrow> jsstring" where
  \<open>vision_createGenericArt prompt =
     data_svg
       ([10] @ str ''    <svg width="1024" height="1024" ''
        @ str ''xmlns="http://www.w3.org/2000/svg">'' @ [10] @ str ''      <defs>''
        @ [10] @ str ''        <radialGradient id="artGrad" cx="50%" cy="50%">'' @ [10]
        @ str ''          <stop offset="0%" style="stop-color:#FF6B6B"/>'' @ [10]
        @ str ''          <stop offset="50%" style="stop-color:#4ECDC4"/>'' @ [10]
        @ str ''          <stop offset="100%" style="stop-color:#45B7D1"/>'' @ [10]
        @ str ''        </radialGradient>'' @ [10] @ str ''      </defs>'' @ [10]
        @ str ''      <rect width="1024" height="1024" fill="url(#artGrad)"/>'' @ [10]
        @ str ''      <text x="512" y="500" font-family="Arial, sans-serif" ''
        @ str ''font-size="48" text-anchor="middle" fill="white" ''
        @ str ''font-weight="bold">'' @ [10] @ str ''        ''
        @ substring0 20 prompt
        @ str ''...'' @ [10] @ str ''      </text>'' @ [10]
        @ str ''      <text x="512" y="950" font-family="Arial, sans-serif" ''
        @ str ''font-size="24" text-anchor="middle" fill="white">'' @ [10]
        @ str ''        Created by Sai Kaki AI - DALL-E Alternative'' @ [10]
        @ str ''      </text>'' @ [10] @ str ''    </svg>'' @ [10] @ str ''  '')\<close>

definition vision_createTomatoSVG :: "jsstring" where
  \<open>vision_createTomatoSVG =
     data_svg
       ([10] @ str ''    <svg width="1024" height="1024" ''
        @ str ''xmlns="http://www.w3.org/2000/svg">'' @ [10] @ str ''      <defs>''
        @ [10] @ str ''        <radialGradient id="tomatoGrad" cx="0.3" cy="0.3">''
        @ [10] @ str ''          <stop offset="0%" style="stop-color:#FF6B6B"/>'' @ [10]
        @ str ''          <stop offset="70%" style="stop-color:#DC2626"/>'' @ [10]
        @ str ''          <stop offset="100%" style="stop-color:#B91C1C"/>'' @ [10]
        @ str ''        </radialGradient>'' @ [10]
        @ str ''        <radialGradient id="leafGrad" cx="0.3" cy="0.3">'' @ [10]
        @ str ''          <stop offset="0%" style="stop-color:#10B981"/>'' @ [10]
        @ str ''          <stop offset="100%" style="stop-color:#059669"/>'' @ [10]
        @ str ''        </radialGradient>'' @ [10]
        @ str ''        <filter id="shadow">'' @ [10]
        @ str ''          <feDropShadow dx="6" dy="8" stdDeviation="12" ''
        @ str ''flood-color="#000" flood-opacity="0.3"/>'' @ [10]
        @ str ''        </filter>'' @ [10] @ str ''      </defs>'' @ [10, 10]
        @ str ''      <rect width="1024" height="1024" ''
        @ str ''fill="linear-gradient(135deg, #FEF2F2 0%, #FECACA 100%)"/>'' @ [10, 10]
        @ str ''      <!-- Main tomato body -->'' @ [10]
        @ str ''      <ellipse cx="512" cy="580" rx="280" ry="300" ''
        @ str ''fill="url(#tomatoGrad)" filter="url(#shadow)"/>'' @ [10, 10]
        @ str ''      <!-- Tomato segments -->'' @ [10]
        @ str ''      <path d="M 350 450 Q 512 400 674 450 Q 600 520 512 550 Q ''
        @ str ''424 520 350 450" fill="#EF4444" opacity="0.6"/>'' @ [10]
        @ str ''      <path d="M 380 650 Q 512 620 644 650 Q 600 720 512 750 Q ''
        @ str ''424 720 380 650" fill="#EF4444" opacity="0.6"/>'' @ [10, 10]
        @ str ''      <!-- Stem area -->'' @ [10]
        @ str ''      <ellipse cx="512" cy="350" rx="80" ry="60" ''
        @ str ''fill="url(#leafGrad)"/>'' @ [10, 10] @ str ''      <!-- Leaves -->''
        @ [10] @ str ''      <path d="M 470 320 Q 440 290 460 260 Q 485 280 475 310" ''
        @ str ''fill="url(#leafGrad)"/>'' @ [10]
        @ str ''      <path d="M 554 320 Q 584 290 564 260 Q 539 280 549 310" ''
        @ str ''fill="url(#leafGrad)"/>'' @ [10]
        @ str ''      <path d="M 512 310 Q 490 280 512 250 Q 534 280 512 310" ''
        @ str ''fill="url(#leafGrad)"/>'' @ [10, 10] @ str ''      <!-- Highlight -->''
        @ [10]
        @ str ''      <ellipse cx="430" cy="500" rx="60" ry="90" fill="#FECACA" ''
        @ str ''opacity="0.8"/>'' @ [10, 10] @ str ''      <!-- Text -->'' @ [10]
        @ str ''      <text x="512" y="920" font-family="Arial, sans-serif" ''
        @ str ''font-size="48" text-anchor="middle" fill="#DC2626" ''
        @ str ''font-weight="bold">Fresh Tomato</text>'' @ [10]
        @ str ''      <text x="512" y="970" font-family="Arial, sans-serif" ''
        @ str ''font-size="24" text-anchor="middle" fill="#B91C1C">Generated by ''
        @ str ''Sai Kaki AI</text>'' @ [10] @ str ''    </svg>'' @ [10] @ str ''  '')\<close>

definition createEnhancedCustomArt :: "jsstring list \<Rightarrow> jsstring \<Rightarrow> jsstring" where
  "createEnhancedCustomArt shuffled prompt =
     (let lowerPrompt = toLowerCase prompt in
      if str_includes lowerPrompt (str ''tomato'') then vision_createTomatoSVG
      else if str_includes lowerPrompt (str ''abstract'') \<or> str_includes lowerPrompt (str ''art'')
      then vision_createAbstractArt shuffled prompt
      else if str_includes lowerPrompt (str ''landscape'') \<or> str_includes lowerPrompt (str ''nature'')
      then vision_createLandscapeArt prompt
      else vision_createGenericArt prompt)"

section \<open>Awaited calls\<close>

text \<open>
  An \<open>async\<close> function that is awaited returns a value, throws, or never settles. The
  model threads no clock: a call that never settles is the outcome \<open>Never\<close>, and what
  is awaited after it does not happen. Next to its outcome a run lists, in order, the
  remote calls it made.
\<close>

datatype error =
  Rejection | SyntaxError | TypeError | RangeError | URIError | ZodError | Error jsstring

datatype 'a outcome = Returns 'a | Throws error | Never

datatype generator =
    FreeDALLE | Pollinations | Craiyon
  | OriginalDALLE | EnhancedPollinations | FreeAPIs | UnsplashCurated

datatype analyzer = ReliableVision | ContextualAI | GoogleVision | EnhancedFallback

datatype call =
    CallIpApi | CallWttr | CallOverpass | CallChess | CallLLM7 | CallHuggingFace jsstring
  | CallDuckDuckGo | CallGenerator generator | CallAnalyzer analyzer

type_synonym 'a run = "'a outcome \<times> call list"

definition ret :: "'a \<Rightarrow> 'a run" where
  "ret v = (Returns v, [])"

definition throw :: "error \<Rightarrow> 'a run" where
  "throw e = (Throws e, [])"

definition await :: "'a run \<Rightarrow> ('a \<Rightarrow> 'b run) \<Rightarrow> 'b run" where
  "await m f =
     (case m of
        (Returns v, l) \<Rightarrow> (case f v of (r, l') \<Rightarrow> (r, l @ l'))
      | (Throws e, l) \<Rightarrow> (Throws e, l)
      | (Never, l) \<Rightarrow> (Never, l))"

definition try_catch :: "'a run \<Rightarrow> (error \<Rightarrow> 'a run) \<Rightarrow> 'a run" where
  "try_catch m h =
     (case m of
        (Throws e, l) \<Rightarrow> (case h e of (r, l') \<Rightarrow> (r, l @ l'))
      | (Returns v, l) \<Rightarrow> (Returns v, l)
      | (Never, l) \<Rightarrow> (Never, l))"

text \<open>
  \<open>fetch\<close> stays pending, rejects, or resolves to a response with its \<open>ok\<close> flag and
  its body; the body is given as what \<open>response.json()\<close> makes of it, \<open>None\<close> when it
  is not JSON. The code passes no abort signal to any \<open>fetch\<close> of the chat service.
\<close>

datatype 'a fetched = Pending | Rejected | Response bool "'a option"

definition fetch :: "call \<Rightarrow> 'a fetched \<Rightarrow> (bool \<times> 'a option) run" where
  "fetch c f =
     (case f of
        Pending \<Rightarrow> (Never, [c])
      | Rejected \<Rightarrow> (Throws Rejection, [c])
      | Response ok body \<Rightarrow> (Returns (ok, body), [c]))"

definition json :: "'a option \<Rightarrow> 'a run" where
  "json body = (case body of None \<Rightarrow> throw SyntaxError | Some d \<Rightarrow> ret d)"

text \<open>A request fails when \<open>fetch\<close> rejects or the response is not \<open>ok\<close>.\<close>

definition failed :: "'a fetched \<Rightarrow> bool" where
  "failed f = (case f of Pending \<Rightarrow> False | Rejected \<Rightarrow> True | Response ok body \<Rightarrow> \<not> ok)"

text \<open>An oracle of the world that is called without a \<open>fetch\<close> of its own in the model.\<close>

definition invoke :: "call \<Rightarrow> 'a outcome \<Rightarrow> 'a run" where
  "invoke c r = (r, [c])"

section \<open>What the services read from the world\<close>

record location =
  city :: jsstring
  country :: jsstring
  location_timezone :: jsstring
  coordinates :: "(real \<times> real) option"

record weather =
  temperature :: jsstring
  description :: jsstring
  humidity :: jsstring
  windSpeed :: jsstring

record RealTimeData =
  currentTime :: jsstring
  timezone :: jsstring
  location :: "location option"
  weather :: "weather option"

record PlaceResult =
  name :: jsstring
  place_type :: jsstring
  address :: jsstring
  distanceText :: jsstring

record SearchResult =
  result_title :: jsstring
  result_url :: jsstring
  snippet :: jsstring

text \<open>
  The payloads, as far as the code looks into them. \<open>IpOther\<close> is any payload whose
  \<open>status\<close> is not \<open>'success'\<close>; the \<open>Malformed\<close> payloads are those on which the code's
  property accesses throw a \<open>TypeError\<close>. A number of a weather report is carried as
  the text that a template literal prints for what \<open>parseInt\<close> returned: decimal digits,
  \<open>NaN\<close>, or the exponent notation that JavaScript uses from \<open>1e21\<close> on. The places of
  \<open>OverpassElements\<close> are the list that \<open>parseOverpassResults\<close> makes of the payload,
  and \<open>distanceText\<close> is the text that \<open>formatPlacesForAI\<close> prints for the distance.
  These are floating-point computations, which stay outside this development.
  \<open>DdgResults\<close> likewise carries the results that \<open>searchWeb\<close> extracts.
\<close>

datatype ipapi_json = IpSuccess jsstring jsstring jsstring real real | IpOther

datatype wttr_json = WttrCurrent jsstring jsstring jsstring jsstring | WttrMalformed

datatype overpass_json = OverpassElements "PlaceResult list" | OverpassMalformed

datatype ddg_json = DdgResults "SearchResult list" | DdgMalformed

datatype llm7_json = Llm7Message jsstring | Llm7Other

datatype hf_json = HfGenerated jsstring | HfString jsstring | HfOther

text \<open>
  The world of one request. \<open>localeString tz\<close> is \<open>new Date().toLocaleString\<close> for the
  time zone \<open>tz\<close>, \<open>None\<close> when the zone is not a valid name and the call throws a
  \<open>RangeError\<close>. \<open>extractPlacesQuery\<close> and \<open>extractChessQuery\<close> are the two keyword
  recognisers of the chat service, pure functions of the message; every result below
  holds whatever they recognise, so they are taken as given. \<open>chessInteraction\<close> is
  \<open>handleChessInteraction\<close> with the chess engine behind it. \<open>randomUUID\<close> and
  \<open>dateNow\<close> give the identifier and the time drawn at a numbered place of a handler.
\<close>

record world =
  ipApi :: "ipapi_json fetched"
  wttr :: "wttr_json fetched"
  overpass :: "overpass_json fetched"
  duckDuckGo :: "ddg_json fetched"
  llm7 :: "llm7_json fetched"
  huggingFace :: "jsstring \<Rightarrow> hf_json fetched"
  generators :: "generator \<Rightarrow> jsstring option outcome"
  analyzers :: "analyzer \<Rightarrow> jsstring outcome"
  chessInteraction :: "jsstring \<Rightarrow> jsstring outcome"
  serverTimeZone :: jsstring
  localeString :: "jsstring \<Rightarrow> jsstring option"
  extractPlacesQuery :: "jsstring \<Rightarrow> jsstring option"
  extractChessQuery :: "jsstring \<Rightarrow> jsstring option"
  shuffledColors :: "jsstring list"
  randomUUID :: "nat \<Rightarrow> jsstring"
  dateNow :: "nat \<Rightarrow> int"





section \<open>Numbers and white space in strings\<close>

fun show_nat :: "nat \<Rightarrow> jsstring" where
  "show_nat n = (if n < 10 then [48 + n] else show_nat (n div 10) @ [48 + n mod 10])"

definition trim :: "jsstring \<Rightarrow> jsstring" where
  "trim s = dropWhile space_unit (rev (dropWhile space_unit (rev s)))"

definition startsWith :: "jsstring \<Rightarrow> jsstring \<Rightarrow> bool" where
  "startsWith s t = prefix t s"

definition slice_last :: "nat \<Rightarrow> 'a list \<Rightarrow> 'a list" where
  "slice_last n xs = drop (length xs - n) xs"

text \<open>
  \<open>encodeURIComponent\<close> throws a \<open>URIError\<close> on a string with a lone surrogate. The
  encoded text goes into the URL or the body of a request, which the model does not
  build, so only the check is kept.
\<close>

fun isWellFormed :: "jsstring \<Rightarrow> bool" where
  "isWellFormed [] = True"
| "isWellFormed [c] = (\<not> (55296 \<le> c \<and> c < 57344))"
| "isWellFormed (c # d # rest) =
     (if 55296 \<le> c \<and> c < 56320 then 56320 \<le> d \<and> d < 57344 \<and> isWellFormed rest
      else if 56320 \<le> c \<and> c < 57344 then False
      else isWellFormed (d # rest))"

definition encodeURIComponent :: "jsstring \<Rightarrow> unit run" where
  "encodeURIComponent s = (if isWellFormed s then ret () else throw URIError)"

section \<open>Real-time data (\<open>realtime.ts\<close>)\<close>

definition getCurrentTime :: "world \<Rightarrow> jsstring \<Rightarrow> (jsstring \<times> jsstring) run" where
  "getCurrentTime w userTimezone =
     (let tz = (if userTimezone = [] then serverTimeZone w else userTimezone) in
      case localeString w tz of
        None \<Rightarrow> throw RangeError
      | Some time \<Rightarrow> ret (time, tz))"

definition getLocationInfo :: "world \<Rightarrow> jsstring \<Rightarrow> location option run" where
  "getLocationInfo w ip =
     try_catch
       (await (fetch CallIpApi (ipApi w)) (\<lambda>(ok, body).
        await (json body) (\<lambda>data.
        case data of
          IpSuccess c k tz lat lon \<Rightarrow>
            ret (Some \<lparr>city = c, country = k, location_timezone = tz,
                       coordinates = Some (lat, lon)\<rparr>)
        | IpOther \<Rightarrow> ret None)))
       (\<lambda>error. ret None)"

definition getWeatherInfo :: "world \<Rightarrow> real \<Rightarrow> real \<Rightarrow> weather option run" where
  "getWeatherInfo w lat lon =
     try_catch
       (await (fetch CallWttr (wttr w)) (\<lambda>(ok, body).
        if ok then
          await (json body) (\<lambda>data.
          case data of
            WttrMalformed \<Rightarrow> throw TypeError
          | WttrCurrent t d h ws \<Rightarrow>
              ret (Some \<lparr>temperature = t, description = d, humidity = h, windSpeed = ws\<rparr>))
        else ret None))
       (\<lambda>error. ret None)"

definition truthy :: "real option \<Rightarrow> bool" where
  "truthy x = (case x of None \<Rightarrow> False | Some v \<Rightarrow> v \<noteq> 0)"

definition getRealTimeData ::
  "world \<Rightarrow> jsstring \<Rightarrow> real option \<Rightarrow> real option \<Rightarrow> RealTimeData run" where
  "getRealTimeData w userIP userLat userLon =
     await
       (if truthy userLat \<and> truthy userLon then
          (let locationData =
                 \<lparr>city = str ''Your precise location'', country = str ''Based on GPS'',
                  location_timezone = serverTimeZone w,
                  coordinates = Some (the userLat, the userLon)\<rparr>
           in try_catch
                (await (getWeatherInfo w (the userLat) (the userLon)) (\<lambda>weatherData.
                 ret (Some locationData, weatherData)))
                (\<lambda>error. ret (Some locationData, None)))
        else
          await (getLocationInfo w userIP) (\<lambda>locationData.
          case locationData of
            None \<Rightarrow> ret (None, None)
          | Some l \<Rightarrow>
              (case coordinates l of
                 None \<Rightarrow> ret (locationData, None)
               | Some (lat, lon) \<Rightarrow>
                   await (getWeatherInfo w lat lon) (\<lambda>weatherData.
                   ret (locationData, weatherData)))))
       (\<lambda>(locationData, weatherData).
        let tz = (case locationData of
                    None \<Rightarrow> str ''UTC''
                  | Some l \<Rightarrow> if location_timezone l = [] then str ''UTC''
                              else location_timezone l)
        in await (getCurrentTime w tz) (\<lambda>(time, zone).
           ret \<lparr>currentTime = time, timezone = zone, location = locationData,
                weather = weatherData\<rparr>))"

definition formatRealTimeDataForAI :: "RealTimeData \<Rightarrow> jsstring" where
  \<open>formatRealTimeDataForAI data =
     (str ''*Real-time info:*'' @ [10])
     @ ([55357, 56656] @ str '' Current time: ''
       @ currentTime data
       @ [10])
     @ (case location data of
          None \<Rightarrow> []
        | Some l \<Rightarrow>
            ([55357, 56525] @ str '' Location: ''
            @ city l
            @ str '', ''
            @ country l
            @ [10]))
     @ (case weather data of
          None \<Rightarrow> []
        | Some wt \<Rightarrow>
            ([55356, 57121, 65039] @ str '' Weather: ''
            @ temperature wt
            @ [176] @ str ''C, ''
            @ description wt
            @ [10])
            @ ([55357, 56487] @ str '' Humidity: ''
            @ humidity wt
            @ str ''%'' @ [10])
            @ ([55357, 56488] @ str '' Wind: ''
            @ windSpeed wt
            @ str '' km/h'' @ [10]))\<close>

section \<open>Nearby places (\<open>places.ts\<close>)\<close>

text \<open>
  \<open>buildOverpassQuery\<close> puts \<open>type\<close> into the query unless its lower case is one of the
  known kinds of place, none of which has a surrogate in it, and the numbers of the query
  print without one. So the query can be encoded exactly when \<open>type\<close> can, and it is
  encoded before the request is made.
\<close>

definition findNearbyPlaces ::
  "world \<Rightarrow> real \<Rightarrow> real \<Rightarrow> jsstring \<Rightarrow> PlaceResult list run" where
  "findNearbyPlaces w lat lon type =
     try_catch
       (await (encodeURIComponent type) (\<lambda>encoded.
        await (fetch CallOverpass (overpass w)) (\<lambda>(ok, body).
        if \<not> ok then throw (Error (str ''Overpass API request failed''))
        else
          await (json body) (\<lambda>data.
          case data of
            OverpassMalformed \<Rightarrow> throw TypeError
          | OverpassElements places \<Rightarrow> ret places))))
       (\<lambda>error. ret [])"

definition formatPlace :: "nat \<times> PlaceResult \<Rightarrow> jsstring" where
  \<open>formatPlace = (\<lambda>(index, place).
     (show_nat (index + 1)
     @ str ''. **''
     @ name place
     @ str ''**'' @ [10])
     @ (str ''   '' @ [55357, 56525] @ str '' ''
     @ distanceText place)
     @ (if index = 0 then str '' (nearest location)'' else [])
     @ [10]
     @ (if address place \<noteq> str ''Address not available''
        then (str ''   '' @ [55356, 57312] @ str '' ''
             @ address place
             @ [10])
        else [])
     @ (str ''   '' @ [55356, 57335, 65039] @ str '' ''
     @ place_type place
     @ [10, 10]))\<close>

definition formatPlacesForAI :: "PlaceResult list \<Rightarrow> jsstring \<Rightarrow> jsstring" where
  \<open>formatPlacesForAI places searchType =
     (if length places = 0 then
        (str ''No ''
        @ searchType
        @ str '' found nearby. Try being more specific or expanding your search ''
        @ str ''area.'')
      else
        ([55357, 56525] @ str '' **Nearby ''
        @ searchType
        @ str '':**'' @ [10, 10])
        @ concat (map formatPlace (enumerate 0 (take 5 places)))
        @ ([10, 55357, 56481]
        @ str '' *Distances calculated from your exact location for precision.*''))\<close>


section \<open>The chat service (\<open>openai.ts\<close>)\<close>

text \<open>
  The bodies of the requests (the personality prompt, the context and the last eight
  messages of the conversation) do not decide what the world answers in this model, so
  they are not built; the functions keep the arguments from which the code builds them.
\<close>

definition callLLM7 :: "world \<Rightarrow> jsstring run" where
  \<open>callLLM7 w =
     try_catch
       (await (fetch CallLLM7 (llm7 w)) (\<lambda>(ok, body).
        if \<not> ok then throw (Error (str ''LLM7 API error''))
        else
          await (json body) (\<lambda>data.
          case data of
            Llm7Message text \<Rightarrow>
              ret (if text = [] then
                     (str ''Well, that's embarrassing. I got a response but it's as empty ''
                     @ str ''as your expectations. Try again!'')
                   else text)
          | Llm7Other \<Rightarrow> throw (Error (str ''Invalid response format from LLM7'')))))
       (\<lambda>error. throw error)\<close>

definition models :: "jsstring list" where
  "models = [str ''microsoft/phi-2'', str ''microsoft/DialoGPT-medium'',
             str ''facebook/blenderbot-400M-distill'']"

text \<open>
  One turn of the loop over the models: \<open>Some text\<close> when the turn returns from
  \<open>callHuggingFace\<close>, \<open>None\<close> when the loop goes on to the next model.
\<close>

definition tryModel :: "world \<Rightarrow> jsstring \<Rightarrow> jsstring option run" where
  "tryModel w model =
     try_catch
       (await (fetch (CallHuggingFace model) (huggingFace w model)) (\<lambda>(ok, body).
        if ok then
          await (json body) (\<lambda>data.
          case data of
            HfGenerated generated_text \<Rightarrow>
              ret (if generated_text \<noteq> [] then Some (trim generated_text) else None)
          | HfString text \<Rightarrow> ret (if text \<noteq> [] then Some (trim text) else None)
          | HfOther \<Rightarrow> ret None)
        else ret None))
       (\<lambda>modelError. ret None)"

fun tryModels :: "world \<Rightarrow> jsstring list \<Rightarrow> jsstring run" where
  "tryModels w [] = throw (Error (str ''All Hugging Face models failed''))"
| "tryModels w (model # rest) =
     await (tryModel w model) (\<lambda>returned.
     case returned of
       Some text \<Rightarrow> ret text
     | None \<Rightarrow> tryModels w rest)"

definition callHuggingFace :: "world \<Rightarrow> jsstring run" where
  "callHuggingFace w = try_catch (tryModels w models) (\<lambda>error. throw error)"

definition handleChessInteraction :: "world \<Rightarrow> jsstring \<Rightarrow> jsstring run" where
  "handleChessInteraction w query = invoke CallChess (chessInteraction w query)"

text \<open>
  The first part of \<open>generateSarcasticResponse\<close>, up to the chess section: it collects
  the context text.
\<close>

definition nonempty :: "jsstring option \<Rightarrow> bool" where
  "nonempty x = (case x of None \<Rightarrow> False | Some s \<Rightarrow> s \<noteq> [])"

definition gatherContext ::
  "world \<Rightarrow> jsstring \<Rightarrow> jsstring \<Rightarrow> (real \<times> real) option \<Rightarrow> jsstring run" where
  \<open>gatherContext w userMessage userIP userLocation =
     await (getRealTimeData w userIP (map_option fst userLocation) (map_option snd userLocation))
       (\<lambda>realTimeData.
     let contextInfo = formatRealTimeDataForAI realTimeData;
         placesQuery = extractPlacesQuery w userMessage
     in
     await
       (case (if nonempty placesQuery then Option.bind (location realTimeData) coordinates
              else None) of
          Some (lat, lon) \<Rightarrow>
            await (findNearbyPlaces w lat lon (the placesQuery)) (\<lambda>places.
            let placesInfo = formatPlacesForAI places (the placesQuery)
            in ret (contextInfo @ [10, 10] @ placesInfo))
        | None \<Rightarrow> ret contextInfo)
       (\<lambda>contextInfo.
     let chessQuery = extractChessQuery w userMessage in
     if nonempty chessQuery then
       try_catch
         (await (handleChessInteraction w (the chessQuery)) (\<lambda>chessInfo.
          ret (contextInfo @ [10, 10] @ chessInfo)))
         (\<lambda>error.
          ret (contextInfo
               @ ([10, 10, 55356, 57286] @ str '' **Chess Game Available** ''
               @ [55356, 57286, 10]
               @ str ''I have chess capabilities! Try commands like:'' @ [10]
               @ str ''- "play chess" to start a new game'' @ [10]
               @ str ''- "e2e4" to make a move'' @ [10]
               @ str ''- "show chess board" to see current position'')))
     else ret contextInfo))\<close>

definition backupBrainReply :: jsstring where
  \<open>backupBrainReply =
     (str ''Well, my backup brain is having issues too. You asked something ''
     @ str ''interesting, but apparently I'm as reliable as a chocolate ''
     @ str ''teapot today! '' @ [55358, 56598])\<close>

definition generateSarcasticResponse ::
  "world \<Rightarrow> jsstring \<Rightarrow> (jsstring \<times> jsstring) list \<Rightarrow> jsstring \<Rightarrow> (real \<times> real) option
     \<Rightarrow> jsstring run" where
  \<open>generateSarcasticResponse w userMessage conversationHistory userIP userLocation =
     try_catch
       (await (gatherContext w userMessage userIP userLocation) (\<lambda>contextInfo.
        try_catch (callLLM7 w)
          (\<lambda>llm7Error.
           try_catch
             (await (callHuggingFace w) (\<lambda>response.
              ret (if response \<noteq> [] then response else backupBrainReply)))
             (\<lambda>hfError. ret (generateIntelligentFallback userMessage (Some contextInfo))))))
       (\<lambda>error. ret (generateIntelligentFallback userMessage None))\<close>

section \<open>Web search (\<open>websearch.ts\<close>)\<close>

text \<open>The query is encoded into the URL before the request is made.\<close>

definition searchWeb :: "world \<Rightarrow> jsstring \<Rightarrow> SearchResult list run" where
  "searchWeb w query =
     try_catch
       (await (encodeURIComponent query) (\<lambda>encoded.
        await (fetch CallDuckDuckGo (duckDuckGo w)) (\<lambda>(ok, body).
        await (json body) (\<lambda>data.
        case data of
          DdgMalformed \<Rightarrow> throw TypeError
        | DdgResults results \<Rightarrow> ret results))))
       (\<lambda>error. ret [])"

definition currentInfoKeywords :: "jsstring list" where
  "currentInfoKeywords =
     [str ''weather'', str ''news'', str ''current'', str ''today'', str ''now'', str ''latest'',
      str ''recent'', str ''price'', str ''stock'']"

definition join :: "jsstring \<Rightarrow> jsstring list \<Rightarrow> jsstring" where
  "join sep xs = (case xs of [] \<Rightarrow> [] | x # rest \<Rightarrow> x @ concat (map (\<lambda>y. sep @ y) rest))"

definition enhanceResponseWithWebData :: "world \<Rightarrow> jsstring \<Rightarrow> jsstring \<Rightarrow> jsstring run" where
  \<open>enhanceResponseWithWebData w userMessage aiResponse =
     (let needsWebSearch =
            list_ex (\<lambda>keyword. str_includes (toLowerCase userMessage) keyword) currentInfoKeywords
      in
      if \<not> needsWebSearch then ret aiResponse
      else
        try_catch
          (await (searchWeb w userMessage) (\<lambda>searchResults.
           if 0 < length searchResults then
             (let webInfo = join [10, 10]
                    (map (\<lambda>result. result_title result @ str '': '' @ snippet result)
                         (take 2 searchResults))
              in ret (aiResponse
                      @ ([10, 10]
                      @ str ''*Real-time info (because you asked for current data):*''
                      @ [10])
                      @ webInfo))
           else ret aiResponse))
          (\<lambda>error. ret aiResponse))\<close>

section \<open>Images (\<open>free-vision.ts\<close> and \<open>vision.ts\<close>)\<close>

text \<open>
  The single generators and analysers are remote services behind adapters; each is an
  oracle of the world. A generator of \<open>free-vision.ts\<close> returns a URL or \<open>null\<close>.
\<close>

definition generate :: "world \<Rightarrow> generator \<Rightarrow> jsstring option run" where
  "generate w g = invoke (CallGenerator g) (generators w g)"

definition analyze :: "world \<Rightarrow> analyzer \<Rightarrow> jsstring run" where
  "analyze w a = invoke (CallAnalyzer a) (analyzers w a)"

definition generateImageDALLE :: "world \<Rightarrow> jsstring \<Rightarrow> jsstring run" where
  "generateImageDALLE w prompt =
     try_catch
       (await (generate w FreeDALLE) (\<lambda>dalleResult.
        if nonempty dalleResult then ret (the dalleResult)
        else
          await (generate w Pollinations) (\<lambda>pollinationsResult.
          if nonempty pollinationsResult then ret (the pollinationsResult)
          else
            await (generate w Craiyon) (\<lambda>craiyonResult.
            if nonempty craiyonResult then ret (the craiyonResult)
            else ret (generateCustomSVG (shuffledColors w) prompt)))))
       (\<lambda>error. ret (generateCustomSVG (shuffledColors w) prompt))"

text \<open>
  A generator of \<open>vision.ts\<close> returns a URL or throws; the oracle's \<open>None\<close> stands for
  such a throw.
\<close>

definition generateOrThrow :: "world \<Rightarrow> generator \<Rightarrow> jsstring run" where
  "generateOrThrow w g =
     await (generate w g) (\<lambda>result.
     case result of
       None \<Rightarrow> throw (Error (str ''generation failed''))
     | Some url \<Rightarrow> ret url)"

fun tryGenerators :: "world \<Rightarrow> generator list \<Rightarrow> jsstring option run" where
  "tryGenerators w [] = ret None"
| "tryGenerators w (g # rest) =
     try_catch
       (await (generateOrThrow w g) (\<lambda>result. ret (Some result)))
       (\<lambda>error. tryGenerators w rest)"

definition generateImage :: "world \<Rightarrow> jsstring \<Rightarrow> jsstring run" where
  "generateImage w prompt =
     try_catch (generateImageDALLE w prompt)
       (\<lambda>error.
        try_catch (generateOrThrow w OriginalDALLE)
          (\<lambda>error.
           await (tryGenerators w [EnhancedPollinations, FreeAPIs, UnsplashCurated])
             (\<lambda>returned.
              case returned of
                Some result \<Rightarrow> ret result
              | None \<Rightarrow> ret (createEnhancedCustomArt (shuffledColors w) prompt))))"

definition analyzeImage :: "world \<Rightarrow> jsstring \<Rightarrow> jsstring run" where
  \<open>analyzeImage w imageData =
     try_catch (analyze w ReliableVision)
       (\<lambda>error.
        try_catch (analyze w ContextualAI)
          (\<lambda>error.
           try_catch (analyze w GoogleVision)
             (\<lambda>error.
              try_catch
                (await (analyze w EnhancedFallback) (\<lambda>result.
                 ret (result
                      @ ([10, 10, 55358, 56598]
                      @ str '' **Note**: Using advanced fallback analysis! Describe what you ''
                      @ str ''see and I'll provide detailed contextual insights combining ''
                      @ str ''technical analysis with visual understanding.''))))
                (\<lambda>error.
                 ret (str ''I can see your image! My multimodal vision system is designed ''
                     @ str ''to understand not just objects, but their relationships and ''
                     @ str ''contextual meaning. Describe what you see and I'll provide ''
                     @ str ''comprehensive analysis! ''
                     @ [55357, 56568, 55358, 56800, 10024])))))\<close>


definition formatImageAnalysisForAI :: "jsstring \<Rightarrow> jsstring \<Rightarrow> jsstring" where
  \<open>formatImageAnalysisForAI imageDescription userPrompt =
     (let formattedPrompt =
            (if userPrompt \<noteq> [] then ([10, 10] @ str ''User's message: "''
                 @ userPrompt
                 @ str ''"'')
             else [])
      in ([55357, 56764, 65039] @ str '' **Image Analysis:**'' @ [10]
         @ imageDescription
         @ formattedPrompt
         @ [10, 10] @ str ''Use this visual context to provide a helpful response!''))\<close>


section \<open>Filtering personal information\<close>

text \<open>
  \<open>String.prototype.replace\<close> with a global pattern and a replacement without \<open>$\<close>:
  the string is scanned from the left; where the pattern matches, the match is replaced
  and the scan goes on behind it (one unit further when the match is empty), and a unit
  at which no match starts is copied.
\<close>

function replace_from :: "rx \<Rightarrow> jsstring \<Rightarrow> jsstring \<Rightarrow> nat \<Rightarrow> jsstring" where
  "replace_from r replacement s i =
     (if length s < i then []
      else
        case match_at r s i of
          None \<Rightarrow> if i < length s then s ! i # replace_from r replacement s (i + 1) else []
        | Some e \<Rightarrow>
            if i < e then replacement @ replace_from r replacement s e
            else if i < length s
            then replacement @ s ! i # replace_from r replacement s (i + 1)
            else replacement)"
  by pat_completeness auto
termination
  by (relation "measure (\<lambda>(r, replacement, s, i). Suc (length s) - i)") auto

definition replace_all :: "rx \<Rightarrow> jsstring \<Rightarrow> jsstring \<Rightarrow> jsstring" where
  "replace_all r replacement s = replace_from r replacement s 0"

text \<open>
  \<^verbatim>\<open>/[a-zA-Z0-9._%+-]+@[a-zA-Z0-9.-]+\.[a-zA-Z]{2,}/g\<close>
\<close>

definition letter :: "nat \<Rightarrow> bool" where
  "letter c = (rng CHR ''a'' CHR ''z'' c \<or> rng CHR ''A'' CHR ''Z'' c)"

definition local_unit :: "nat \<Rightarrow> bool" where
  "local_unit c = (letter c \<or> digit c \<or> one_of ''._%+-'' c)"

definition domain_unit :: "nat \<Rightarrow> bool" where
  "domain_unit c = (letter c \<or> digit c \<or> one_of ''.-'' c)"

definition emailPattern :: rx where
  "emailPattern =
     seqs [plus (Cls local_unit), chr CHR ''@'', plus (Cls domain_unit), chr CHR ''.'',
           rep_min 2 (Cls letter)]"

text \<open>
  \<^verbatim>\<open>/(\+?1[-.\s]?)?\(?[0-9]{3}\)?[-.\s]?[0-9]{3}[-.\s]?[0-9]{4}/g\<close>
\<close>

definition separator :: "nat \<Rightarrow> bool" where
  "separator c = (one_of ''-.'' c \<or> space_unit c)"

definition phonePattern :: rx where
  "phonePattern =
     seqs [Opt (seqs [Opt (chr CHR ''+''), chr CHR ''1'', Opt (Cls separator)]),
           Opt (chr CHR ''(''), rep 3 (Cls digit), Opt (chr CHR '')''), Opt (Cls separator),
           rep 3 (Cls digit), Opt (Cls separator), rep 4 (Cls digit)]"

text \<open>
  \<^verbatim>\<open>/\b\d{4}[\s-]?\d{4}[\s-]?\d{4}[\s-]?\d{4}\b/g\<close>
\<close>

definition space_or_dash :: "nat \<Rightarrow> bool" where
  "space_or_dash c = (space_unit c \<or> c = of_char CHR ''-'')"

definition creditCardPattern :: rx where
  "creditCardPattern =
     seqs [WordB, rep 4 (Cls digit), Opt (Cls space_or_dash), rep 4 (Cls digit),
           Opt (Cls space_or_dash), rep 4 (Cls digit), Opt (Cls space_or_dash),
           rep 4 (Cls digit), WordB]"

text \<open>
  \<^verbatim>\<open>/\b\d{3}-?\d{2}-?\d{4}\b/g\<close>
\<close>

definition ssnPattern :: rx where
  "ssnPattern =
     seqs [WordB, rep 3 (Cls digit), Opt (chr CHR ''-''), rep 2 (Cls digit),
           Opt (chr CHR ''-''), rep 4 (Cls digit), WordB]"

definition filterPersonalInformation :: "jsstring \<Rightarrow> jsstring" where
  "filterPersonalInformation text =
     (let filtered = text;
          filtered = replace_all emailPattern (str ''[EMAIL]'') filtered;
          filtered = replace_all phonePattern (str ''[PHONE]'') filtered;
          filtered = replace_all creditCardPattern (str ''[CREDIT_CARD]'') filtered;
          filtered = replace_all ssnPattern (str ''[SSN]'') filtered
      in filtered)"

section \<open>The route that sends a message (\<open>routes.ts\<close>)\<close>

text \<open>
  The body of the request is a JSON value; \<open>messageSchema.parse\<close> throws unless
  \<open>content\<close> is a string of at least one unit, \<open>role\<close> is \<open>"user"\<close>, \<open>userLocation\<close> is
  absent, \<open>null\<close> or an object with numbers \<open>lat\<close> and \<open>lon\<close>, and \<open>imageUrl\<close> is absent or
  a string.
\<close>

datatype json =
    JUndefined | JNull | JBool bool | JNumber real | JString jsstring
  | JArray "json list" | JObject "(string \<times> json) list"

definition member :: "json \<Rightarrow> string \<Rightarrow> json" where
  "member j k =
     (case j of
        JObject kvs \<Rightarrow> (case map_of kvs k of None \<Rightarrow> JUndefined | Some v \<Rightarrow> v)
      | _ \<Rightarrow> JUndefined)"

record message_input =
  input_content :: jsstring
  input_userLocation :: "(real \<times> real) option"
  input_imageUrl :: "jsstring option"

definition parse_userLocation :: "json \<Rightarrow> (real \<times> real) option option" where
  "parse_userLocation j =
     (case j of
        JUndefined \<Rightarrow> Some None
      | JNull \<Rightarrow> Some None
      | JObject kvs \<Rightarrow>
          (case (member j ''lat'', member j ''lon'') of
             (JNumber lat, JNumber lon) \<Rightarrow> Some (Some (lat, lon))
           | _ \<Rightarrow> None)
      | _ \<Rightarrow> None)"

definition parse_imageUrl :: "json \<Rightarrow> jsstring option option" where
  "parse_imageUrl j =
     (case j of JUndefined \<Rightarrow> Some None | JString u \<Rightarrow> Some (Some u) | _ \<Rightarrow> None)"

definition messageSchema_parse :: "json \<Rightarrow> message_input option" where
  "messageSchema_parse body =
     (case body of
        JObject kvs \<Rightarrow>
          (case (member body ''content'', member body ''role'',
                 parse_userLocation (member body ''userLocation''),
                 parse_imageUrl (member body ''imageUrl'')) of
             (JString text, JString r, Some loc, Some url) \<Rightarrow>
               if 1 \<le> length text \<and> r = str ''user''
               then Some \<lparr>input_content = text, input_userLocation = loc,
                          input_imageUrl = url\<rparr>
               else None
           | _ \<Rightarrow> None)
      | _ \<Rightarrow> None)"

datatype response_body =
    Exchange ChatMessage ChatMessage
  | Failed jsstring ChatMessage

record http_response =
  status :: nat
  payload :: response_body

text \<open>
  A handler awaits calls and works on the store; what it has written stays written
  when it throws afterwards.
\<close>

type_synonym 'a io = "MemStorage \<Rightarrow> 'a outcome \<times> call list \<times> MemStorage"

definition io_ret :: "'a \<Rightarrow> 'a io" where
  "io_ret v st = (Returns v, [], st)"

definition io_throw :: "error \<Rightarrow> 'a io" where
  "io_throw e st = (Throws e, [], st)"

definition io_await :: "'a io \<Rightarrow> ('a \<Rightarrow> 'b io) \<Rightarrow> 'b io" where
  "io_await m f st =
     (case m st of
        (Returns v, l, st1) \<Rightarrow> (case f v st1 of (r, l', st2) \<Rightarrow> (r, l @ l', st2))
      | (Throws e, l, st1) \<Rightarrow> (Throws e, l, st1)
      | (Never, l, st1) \<Rightarrow> (Never, l, st1))"

definition io_try :: "'a io \<Rightarrow> (error \<Rightarrow> 'a io) \<Rightarrow> 'a io" where
  "io_try m h st =
     (case m st of
        (Throws e, l, st1) \<Rightarrow> (case h e st1 of (r, l', st2) \<Rightarrow> (r, l @ l', st2))
      | (Returns v, l, st1) \<Rightarrow> (Returns v, l, st1)
      | (Never, l, st1) \<Rightarrow> (Never, l, st1))"

definition io_run :: "'a run \<Rightarrow> 'a io" where
  "io_run m st = (fst m, snd m, st)"

definition io_store :: "(MemStorage \<Rightarrow> 'a \<times> MemStorage) \<Rightarrow> 'a io" where
  "io_store f st = (case f st of (v, st1) \<Rightarrow> (Returns v, [], st1))"

definition io_read :: "(MemStorage \<Rightarrow> 'a) \<Rightarrow> 'a io" where
  "io_read f st = (Returns (f st), [], st)"

definition upper_unit :: "nat \<Rightarrow> nat" where
  "upper_unit c = (if 97 \<le> c \<and> c \<le> 122 then c - 32 else c)"

text \<open>
  \<open>generateTitleFromMessage\<close>: after \<open>/[^\w\s]/g\<close> is removed only word units and white
  space are left, so the first unit has its upper case within ASCII.
\<close>

definition generateTitleFromMessage :: "jsstring \<Rightarrow> jsstring" where
  "generateTitleFromMessage message =
     (let cleaned = take 50 (filter (\<lambda>c. word_unit c \<or> space_unit c) (trim message)) in
      if length cleaned < 10 then str ''Quick Chat''
      else
        (let title' = upper_unit (hd cleaned) # tl cleaned in
         if 50 \<le> length cleaned then title' @ str ''...'' else title'))"

definition user :: jsstring where
  "user = str ''user''"

definition assistant :: jsstring where
  "assistant = str ''assistant''"

definition generatedImageReply :: "jsstring \<Rightarrow> jsstring \<Rightarrow> jsstring" where
  \<open>generatedImageReply prompt imageUrl =
     (if str_includes imageUrl (str ''unsplash.com'') then
        (str ''Here's a stunning photo for "''
        @ prompt
        @ str ''"! '' @ [287, 376, 8220, 184, 10, 10] @ str ''![Generated Image](''
        @ imageUrl
        @ str '')'' @ [10, 10]
        @ str ''Found this gorgeous real photograph that captures your vision ''
        @ str ''perfectly. Sometimes reality beats AI, right? ''
        @ [287, 376, 732, 226, 339, 168])
      else if str_includes imageUrl (str ''svg'') then
        (str ''Here's your custom "''
        @ prompt
        @ str ''" masterpiece! '' @ [287, 376, 168, 10, 10] @ str ''![Generated Image](''
        @ imageUrl
        @ str '')'' @ [10, 10]
        @ str ''Created this special artwork just for you using advanced vector ''
        @ str ''graphics. It's got that premium hand-crafted feel! ''
        @ [287, 376, 732, 226, 339, 168])
      else if str_includes imageUrl (str ''pollinations'') then
        (str ''Here's your AI-generated "''
        @ prompt
        @ str ''"! '' @ [287, 376, 168, 10, 10] @ str ''![Generated Image](''
        @ imageUrl
        @ str '')'' @ [10, 10]
        @ str ''Generated using cutting-edge free AI technology. This is what ''
        @ str ''happens when you have the right connections! ''
        @ [287, 376, 732, 287, 376, 8221, 165])
      else
        (str ''Here's your "''
        @ prompt
        @ str ''" image! '' @ [287, 376, 168, 10, 10] @ str ''![Generated Image](''
        @ imageUrl
        @ str '')'' @ [10, 10]
        @ str ''Generated using completely free AI services - no subscription ''
        @ str ''needed! Quality art without breaking the bank! ''
        @ [287, 376, 8217, 170, 226, 339, 168]))\<close>

definition alternativesReply :: "jsstring \<Rightarrow> jsstring" where
  \<open>alternativesReply prompt =
     (str ''Hmm, my image generators are being stubborn today! '' @ [287, 376, 732, 8230]
     @ str '' But don't worry, I've got backup plans:'' @ [10, 10, 287, 376, 168]
     @ str '' **Try these FREE working alternatives:**'' @ [10]
     @ str ''1. **Pollinations.ai** - Paste your prompt directly: "''
     @ prompt
     @ str ''"'' @ [10] @ str ''2. **Craiyon.com** - Completely free, no signup needed''
     @ [10] @ str ''3. **Leonardo.ai** - Free tier with amazing quality'' @ [10]
     @ str ''4. **Bing Image Creator** - Free with Microsoft account'' @ [10, 10]
     @ str ''**Optimized prompt for you:**'' @ [10] @ str ''"''
     @ prompt
     @ str '', high quality, detailed, vibrant colors, professional ''
     @ str ''photography style, 4K resolution"'' @ [10, 10]
     @ str ''These services are working right now and will give you amazing ''
     @ str ''results! Want me to optimize your prompt even further? ''
     @ [287, 376, 353, 8364])\<close>

definition imageGenerationRequest ::
  "world \<Rightarrow> jsstring \<Rightarrow> jsstring \<Rightarrow> http_response io" where
  "imageGenerationRequest w sid text =
     (let prompt = trim (drop (length (str ''[IMAGE_GENERATION]'')) text) in
      io_try
        (io_await (io_run (generateImage w prompt)) (\<lambda>imageUrl.
         io_await (io_store (createChatMessage (randomUUID w 0) (dateNow w 0)
                     \<lparr>insert_sessionId = sid, insert_role = user,
                      insert_content = str ''Generate an image: '' @ prompt,
                      insert_metadata = None\<rparr>)) (\<lambda>userMessage.
         io_await (io_store (createChatMessage (randomUUID w 1) (dateNow w 1)
                     \<lparr>insert_sessionId = sid, insert_role = assistant,
                      insert_content = generatedImageReply prompt imageUrl,
                      insert_metadata = None\<rparr>)) (\<lambda>aiMessage.
         io_await (io_read (\<lambda>st. getSessionMessages st sid)) (\<lambda>messages.
         io_await (if length messages \<le> 2
                   then io_store (updateChatSession (dateNow w 2) sid
                                    (Some (generateTitleFromMessage prompt)))
                   else io_ret None) (\<lambda>updated.
         io_ret \<lparr>status = 200, payload = Exchange userMessage aiMessage\<rparr>))))))
        (\<lambda>error.
         io_await (io_store (createChatMessage (randomUUID w 3) (dateNow w 3)
                     \<lparr>insert_sessionId = sid, insert_role = user,
                      insert_content = str ''Generate an image: '' @ prompt,
                      insert_metadata = None\<rparr>)) (\<lambda>userMessage.
         io_await (io_store (createChatMessage (randomUUID w 4) (dateNow w 4)
                     \<lparr>insert_sessionId = sid, insert_role = assistant,
                      insert_content = alternativesReply prompt,
                      insert_metadata = None\<rparr>)) (\<lambda>aiMessage.
         io_ret \<lparr>status = 200, payload = Exchange userMessage aiMessage\<rparr>))))"

text \<open>The text that is filtered and stored: the content, or the analysis of the image.\<close>

definition processContent :: "world \<Rightarrow> jsstring \<Rightarrow> jsstring option \<Rightarrow> jsstring io" where
  \<open>processContent w text imageUrl =
     (if nonempty imageUrl then
        io_try
          (io_await (io_run (analyzeImage w (the imageUrl))) (\<lambda>analysis.
           io_ret (formatImageAnalysisForAI analysis text)))
          (\<lambda>error.
           io_ret (str ''I can see you uploaded an image, but my vision circuits are ''
                  @ str ''having a moment! '' @ [287, 376, 8216, 8364]
                  @ str '' Could you describe what's in the image? I'd love to help ''
                  @ str ''analyze it with my wit intact! Original message: ''
                  @ text))
      else io_ret text)\<close>

definition textRequest ::
  "world \<Rightarrow> jsstring \<Rightarrow> jsstring \<Rightarrow> message_input \<Rightarrow> http_response io" where
  "textRequest w sid ip input =
     (let text = input_content input; imageUrl = input_imageUrl input in
      io_await (processContent w text imageUrl) (\<lambda>processedContent.
      let filteredContent = filterPersonalInformation processedContent in
      io_await (io_store (createChatMessage (randomUUID w 0) (dateNow w 0)
                  \<lparr>insert_sessionId = sid, insert_role = user,
                   insert_content = filteredContent,
                   insert_metadata = Some (UserMeta (length text) imageUrl)\<rparr>)) (\<lambda>userMessage.
      io_await (io_read (\<lambda>st. getSessionMessages st sid)) (\<lambda>existingMessages.
      io_await (if length existingMessages \<le> 1
                then io_store (updateChatSession (dateNow w 1) sid
                                 (Some (generateTitleFromMessage filteredContent)))
                else io_ret None) (\<lambda>updated.
      io_await (io_read (\<lambda>st. getSessionMessages st sid)) (\<lambda>messages.
      let conversationHistory =
            map (\<lambda>msg. (role msg, content msg)) (slice_last 10 messages);
          userIP = (if ip = [] then str ''127.0.0.1'' else ip)
      in
      io_await (io_run (generateSarcasticResponse w filteredContent conversationHistory userIP
                          (input_userLocation input))) (\<lambda>aiResponse.
      io_await (io_run (enhanceResponseWithWebData w filteredContent aiResponse)) (\<lambda>aiResponse.
      io_await (io_store (createChatMessage (randomUUID w 1) (dateNow w 2)
                  \<lparr>insert_sessionId = sid, insert_role = assistant,
                   insert_content = aiResponse,
                   insert_metadata =
                     Some (ReplyMeta (message_id userMessage)
                             (str_includes aiResponse (str ''*Real-time info'')))\<rparr>))
        (\<lambda>aiMessage.
      io_await (io_store (updateChatSession (dateNow w 3) sid None)) (\<lambda>updated.
      io_ret \<lparr>status = 200, payload = Exchange userMessage aiMessage\<rparr>))))))))))"

definition sendMessage :: "world \<Rightarrow> jsstring \<Rightarrow> jsstring \<Rightarrow> json \<Rightarrow> http_response io" where
  \<open>sendMessage w sid ip body =
     io_try
       (case messageSchema_parse body of
          None \<Rightarrow> io_throw ZodError
        | Some input \<Rightarrow>
            if startsWith (input_content input) (str ''[IMAGE_GENERATION]'')
            then imageGenerationRequest w sid (input_content input)
            else textRequest w sid ip input)
       (\<lambda>error.
        io_await (io_store (createChatMessage (randomUUID w 5) (dateNow w 5)
                    \<lparr>insert_sessionId = sid, insert_role = assistant,
                     insert_content =
                       (str ''Oops! Even I can't fix that mess. My circuits are having a ''
                       @ str ''moment. Try again, genius. ''
                       @ [287, 376, 164, 8211, 287, 376, 8217, 165]),
                     insert_metadata = Some ErrorMeta\<rparr>)) (\<lambda>errorMessage.
        io_ret \<lparr>status = 500,
                payload = Failed (str ''Failed to process message'') errorMessage\<rparr>))\<close>


section \<open>Example stores and worlds\<close>

definition demoStore :: MemStorage where
  "demoStore =
     snd (createChatMessage (str ''m2'') 30
            \<lparr>insert_sessionId = str ''s2'', insert_role = user, insert_content = str ''yo'',
             insert_metadata = None\<rparr>
     (snd (createChatMessage (str ''m1'') 20
            \<lparr>insert_sessionId = str ''s1'', insert_role = user, insert_content = str ''hi'',
             insert_metadata = None\<rparr>
     (snd (createChatSession (str ''s2'') 11 \<lparr>insert_userId = Some (str ''bob'')\<rparr>
     (snd (createChatSession (str ''s1'') 10 \<lparr>insert_userId = Some (str ''ann'')\<rparr>
        emptyStorage)))))))"

text \<open>A world in which every remote call is refused.\<close>

definition quietWorld :: world where
  "quietWorld =
     \<lparr>ipApi = Rejected, wttr = Rejected, overpass = Rejected, duckDuckGo = Rejected,
      llm7 = Rejected, huggingFace = (\<lambda>model. Rejected),
      generators = (\<lambda>g. Returns None), analyzers = (\<lambda>a. Throws Rejection),
      chessInteraction = (\<lambda>query. Throws Rejection),
      serverTimeZone = str ''UTC'', localeString = (\<lambda>tz. Some (str ''Monday, 9:00 AM UTC'')),
      extractPlacesQuery = (\<lambda>message. None), extractChessQuery = (\<lambda>message. None),
      shuffledColors = colors, randomUUID = (\<lambda>n. show_nat n), dateNow = (\<lambda>n. int n)\<rparr>"

text \<open>A world in which LLM7 answers.\<close>

definition llm7World :: world where
  "llm7World = quietWorld\<lparr>llm7 := Response True (Some (Llm7Message (str ''Obviously.'')))\<rparr>"

text \<open>
  A world in which LLM7 and the first Hugging Face model are refused, the second model
  answers, and the third would never answer.
\<close>

definition backupWorld :: world where
  "backupWorld =
     quietWorld\<lparr>huggingFace := (\<lambda>model.
        if model = str ''microsoft/phi-2'' then Rejected
        else if model = str ''microsoft/DialoGPT-medium''
        then Response True (Some (HfGenerated (str '' Fine. '')))
        else Pending)\<rparr>"

text \<open>The same world, but the second model answers with white space only.\<close>

definition blankWorld :: world where
  "blankWorld =
     quietWorld\<lparr>huggingFace := (\<lambda>model.
        if model = str ''microsoft/phi-2'' then Response True (Some (HfGenerated (str '' '')))
        else Pending)\<rparr>"

text \<open>A world in which LLM7 never answers, and one in which a model never answers.\<close>

definition stalledWorld :: world where
  "stalledWorld = quietWorld\<lparr>llm7 := Pending\<rparr>"

definition stalledModelWorld :: world where
  "stalledModelWorld =
     quietWorld\<lparr>huggingFace := (\<lambda>model.
        if model = str ''microsoft/phi-2'' then Rejected else Pending)\<rparr>"

text \<open>A world in which the first image generator delivers.\<close>

definition imageWorld :: world where
  "imageWorld =
     quietWorld\<lparr>generators := (\<lambda>g.
        if g = FreeDALLE then Returns (Some (str ''https://img.example/1.png''))
        else Never)\<rparr>"






text \<open>The context text when no lookup delivers anything.\<close>

definition quietContext :: jsstring where
  "quietContext =
     formatRealTimeDataForAI
       \<lparr>currentTime = str ''Monday, 9:00 AM UTC'', timezone = str ''UTC'', location = None,
        weather = None\<rparr>"

text \<open>A request without content, and one with an address in it.\<close>

definition emptyContentBody :: json where
  "emptyContentBody = JObject [(''content'', JString []), (''role'', JString (str ''user''))]"

definition addressBody :: json where
  "addressBody =
     JObject [(''content'', JString (str ''write to ann@example.org'')),
              (''role'', JString (str ''user''))]"


section \<open>Properties of the chess move validator\<close>

lemma ends_seqs_Nil: "ends (seqs []) s i = [i]"
  by (simp add: seqs_def)

lemma ends_seqs_Cons: "ends (seqs (r # rs)) s i = concat (map (ends (seqs rs) s) (ends r s i))"
  by (simp add: seqs_def)

lemma rx_test_iff: "rx_test r s \<longleftrightarrow> (\<exists>i\<le>length s. ends r s i \<noteq> [])"
proof -
  have "match_at r s i \<noteq> None \<longleftrightarrow> ends r s i \<noteq> []" for i
    by (simp add: match_at_def split: list.splits)
  then show ?thesis
    by (simp add: rx_test_def list_ex_iff Bex_def less_Suc_eq_le del: upt_Suc)
qed

lemma movePattern_at:
  "ends movePattern s i \<noteq> [] \<longleftrightarrow>
     i = 0 \<and> (length s = 4 \<or> length s = 5 \<and> one_of ''qrbn'' (s ! 4)) \<and>
     file_unit (s ! 0) \<and> rank_unit (s ! 1) \<and> file_unit (s ! 2) \<and> rank_unit (s ! 3)"
  unfolding movePattern_def
  by (auto simp add: ends_seqs_Cons ends_seqs_Nil eval_nat_numeral)

text \<open>
  Claim C4, as the code has it. The validator accepts \<open>e2e4\<close> and rejects \<open>z9z9\<close> and
  \<open>e2-e4\<close>. It accepts a move exactly when the lower-cased move is a file, a rank, a
  file and a rank, \<open>[a-h][1-8][a-h][1-8]\<close>, with at most one promotion letter \<open>q\<close>, \<open>r\<close>,
  \<open>b\<close> or \<open>n\<close> behind them; no rule of chess is consulted.
\<close>

theorem isValidMove_shape:
  "isValidMove (str ''e2e4'') \<and> \<not> isValidMove (str ''z9z9'') \<and> \<not> isValidMove (str ''e2-e4'') \<and>
   (isValidMove move \<longleftrightarrow>
      (let l = toLowerCase move in
       (length l = 4 \<or> length l = 5 \<and> one_of ''qrbn'' (l ! 4)) \<and>
       file_unit (l ! 0) \<and> rank_unit (l ! 1) \<and> file_unit (l ! 2) \<and> rank_unit (l ! 3)))"
proof -
  have general: "isValidMove m \<longleftrightarrow>
      (let l = toLowerCase m in
       (length l = 4 \<or> length l = 5 \<and> one_of ''qrbn'' (l ! 4)) \<and>
       file_unit (l ! 0) \<and> rank_unit (l ! 1) \<and> file_unit (l ! 2) \<and> rank_unit (l ! 3))" for m
    unfolding isValidMove_def rx_test_iff movePattern_at Let_def by auto
  have "isValidMove (str ''e2e4'')" by code_simp
  moreover have "\<not> isValidMove (str ''z9z9'')" by code_simp
  moreover have "\<not> isValidMove (str ''e2-e4'')" by code_simp
  ultimately show ?thesis using general by blast
qed

text \<open>
  Claim C4 as stated fails: a promotion move and a move in capitals are accepted, and
  neither is of the shape \<open>[a-h][1-8][a-h][1-8]\<close>.
\<close>

theorem isValidMove_beyond_coordinate_shape:
  "isValidMove (str ''e7e8q'') \<and> \<not> matches_coordinate_shape (str ''e7e8q'') \<and>
   isValidMove (str ''E2E4'') \<and> \<not> matches_coordinate_shape (str ''E2E4'')"
  by code_simp

section \<open>Properties of the store\<close>







lemma delete_absent: "map_of xs k = None \<Longrightarrow> AList.delete k xs = xs"
  by (induction xs) (auto simp: AList.delete_eq split: if_splits)

lemma fold_delete_keys:
  "fold (\<lambda>(k, v) ms. AList.delete k ms) ds xs = filter (\<lambda>(k, v). k \<notin> fst ` set ds) xs"
proof (induction ds arbitrary: xs)
  case Nil
  then show ?case by simp
next
  case (Cons d ds)
  obtain k v where d: "d = (k, v)" by (cases d)
  have "fold (\<lambda>(k, v) ms. AList.delete k ms) (d # ds) xs
          = filter (\<lambda>(k, v). k \<notin> fst ` set ds) (AList.delete k xs)"
    unfolding d by (simp add: Cons.IH)
  also have "\<dots> = filter (\<lambda>(k', v). k' \<notin> fst ` set (d # ds)) xs"
    unfolding d AList.delete_eq by (induction xs) auto
  finally show ?case .
qed

lemma purge_messages:
  assumes "distinct (map fst xs)"
  shows "fold (\<lambda>(k, v) ms. AList.delete k ms) (filter (\<lambda>(k, m). sessionId m = sid) xs) xs
           = filter (\<lambda>(k, m). sessionId m \<noteq> sid) xs"
  unfolding fold_delete_keys
proof (rule filter_cong[OF refl])
  fix x assume x: "x \<in> set xs"
  obtain k m where km: "x = (k, m)" by (cases x)
  have "k \<in> fst ` set (filter (\<lambda>(k, m). sessionId m = sid) xs) \<longleftrightarrow> sessionId m = sid"
  proof
    assume "k \<in> fst ` set (filter (\<lambda>(k, m). sessionId m = sid) xs)"
    then obtain m' where m': "(k, m') \<in> set xs" "sessionId m' = sid" by auto
    from assms x km m'(1) have "m' = m" by (meson eq_key_imp_eq_value)
    with m'(2) show "sessionId m = sid" by simp
  next
    assume "sessionId m = sid"
    with x km show "k \<in> fst ` set (filter (\<lambda>(k, m). sessionId m = sid) xs)" by force
  qed
  then show "(case x of (k, v) \<Rightarrow> k \<notin> fst ` set (filter (\<lambda>(k, m). sessionId m = sid) xs))
      = (case x of (k, m) \<Rightarrow> sessionId m \<noteq> sid)" by (simp add: km)
qed

lemma deleteSessionMessages_store:
  "distinct (map fst (chatMessages st)) \<Longrightarrow>
   snd (deleteSessionMessages st sid)
     = st\<lparr>chatMessages := filter (\<lambda>(k, m). sessionId m \<noteq> sid) (chatMessages st)\<rparr>"
  by (simp add: deleteSessionMessages_def Let_def purge_messages)

lemma messages_other:
  "other \<noteq> sid \<Longrightarrow>
   filter (\<lambda>m. sessionId m = other) (map snd (filter (\<lambda>(k, m). sessionId m \<noteq> sid) xs))
     = filter (\<lambda>m. sessionId m = other) (map snd xs)"
  by (induction xs) auto

lemma messages_same:
  "filter (\<lambda>m. sessionId m = sid) (map snd (filter (\<lambda>(k, m). sessionId m \<noteq> sid) xs)) = []"
  by (induction xs) auto

lemma map_of_delete_other: "other \<noteq> sid \<Longrightarrow> map_of (AList.delete sid xs) other = map_of xs other"
  by (simp add: delete_conv')

lemma map_of_delete_same: "map_of (AList.delete sid xs) sid = None"
  by (simp add: delete_conv')

text \<open>
  Claim C10. When \<open>deleteChatSession\<close> returns true, the session can no longer be
  fetched and has no messages left, while every other session, its messages and the
  users are as before; when the session does not exist, it returns false and the store
  is unchanged. A store is a triple of \<open>Map\<close>s, so its keys are pairwise different.
\<close>

theorem deleteChatSession_frame:
  assumes "keys_distinct st"
  shows "(fst (deleteChatSession st sid) \<longrightarrow>
            getChatSession (snd (deleteChatSession st sid)) sid = None
          \<and> getSessionMessages (snd (deleteChatSession st sid)) sid = []
          \<and> (\<forall>other. other \<noteq> sid \<longrightarrow>
                getChatSession (snd (deleteChatSession st sid)) other = getChatSession st other
              \<and> getSessionMessages (snd (deleteChatSession st sid)) other
                  = getSessionMessages st other)
          \<and> users (snd (deleteChatSession st sid)) = users st)
       \<and> (getChatSession st sid = None \<longrightarrow>
            \<not> fst (deleteChatSession st sid) \<and> snd (deleteChatSession st sid) = st)"
proof -
  from assms have d: "distinct (map fst (chatMessages st))"
    by (simp add: keys_distinct_def)
  show ?thesis
  proof (cases "map_of (chatSessions st) sid")
    case None
    then show ?thesis
      by (simp add: deleteChatSession_def getChatSession_def Let_def delete_absent)
  next
    case (Some a)
    then show ?thesis using d
      by (simp add: deleteChatSession_def getChatSession_def getSessionMessages_def Let_def
          deleteSessionMessages_store messages_other messages_same map_of_delete_other
          map_of_delete_same js_sort_def)
  qed
qed

theorem deleteChatSession_frame_witness:
  "keys_distinct demoStore
   \<and> fst (deleteChatSession demoStore (str ''s1''))
   \<and> getChatSession (snd (deleteChatSession demoStore (str ''s1''))) (str ''s1'') = None
   \<and> getSessionMessages (snd (deleteChatSession demoStore (str ''s1''))) (str ''s1'') = []
   \<and> str ''s2'' \<noteq> str ''s1''
   \<and> getSessionMessages (snd (deleteChatSession demoStore (str ''s1''))) (str ''s2'')
        = getSessionMessages demoStore (str ''s2'')
   \<and> getChatSession demoStore (str ''s3'') = None
   \<and> snd (deleteChatSession demoStore (str ''s3'')) = demoStore"
proof -
  have k: "keys_distinct demoStore" by code_simp
  have t: "fst (deleteChatSession demoStore (str ''s1''))" by code_simp
  have o: "str ''s2'' \<noteq> str ''s1''" by code_simp
  have n: "getChatSession demoStore (str ''s3'') = None" by code_simp
  from deleteChatSession_frame[OF k, of "str ''s1''"] t o
       deleteChatSession_frame[OF k, of "str ''s3''"] n k
  show ?thesis by blast
qed

section \<open>Properties of the local fallbacks\<close>

lemma str_Cons_append: "str (c # cs) @ t \<noteq> []"
  by (simp add: str_def)

lemma data_svg_nonempty: "data_svg svg \<noteq> []"
  by (simp add: data_svg_def str_def)

lemma if_nonempty: "a \<noteq> [] \<Longrightarrow> b \<noteq> [] \<Longrightarrow> (if c then a else b) \<noteq> []"
  by simp

lemma generateIntelligentFallback_nonempty:
  "generateIntelligentFallback userMessage realTimeInfo \<noteq> []"
  unfolding generateIntelligentFallback_def Let_def
  by (intro if_nonempty str_Cons_append)

lemma generateCustomSVG_nonempty: "generateCustomSVG shuffled prompt \<noteq> []"
  by (simp add: generateCustomSVG_def Let_def createTomatoSVG_def createAbstractArt_def
      createLandscapeSVG_def createGenericArt_def data_svg_nonempty)

text \<open>
  Claim C5. For every message, with or without real-time text, the fallback reply is a
  non-empty string, and for every prompt and every outcome of the random shuffle the
  fallback image is a non-empty data URL. Both are functions of their arguments alone:
  they make no remote call and have no way to throw.
\<close>

theorem local_fallbacks_total:
  "generateIntelligentFallback userMessage realTimeInfo \<noteq> []
   \<and> generateCustomSVG shuffled prompt \<noteq> []
   \<and> prefix (str ''data:image/svg+xml;base64,'') (generateCustomSVG shuffled prompt)"
proof -
  have "prefix (str ''data:image/svg+xml;base64,'') (data_svg svg)" for svg
    by (simp add: data_svg_def)
  then have "prefix (str ''data:image/svg+xml;base64,'') (generateCustomSVG shuffled prompt)"
    by (simp add: generateCustomSVG_def Let_def createTomatoSVG_def createAbstractArt_def
      createLandscapeSVG_def createGenericArt_def)
  with generateIntelligentFallback_nonempty generateCustomSVG_nonempty show ?thesis by blast
qed



section \<open>Properties of awaited calls\<close>

lemma str_eq_iff: "str a = str b \<longleftrightarrow> a = b"
  by (simp add: str_def inj_map_eq_map inj_def)

lemma str_Nil_iff: "str a = [] \<longleftrightarrow> a = []" "[] = str a \<longleftrightarrow> a = []"
  by (auto simp add: str_def)


lemmas str_simps = str_eq_iff str_Nil_iff

lemma await_simps:
  "await (Returns v, l) f = (fst (f v), l @ snd (f v))"
  "await (Throws e, l) f = (Throws e, l)"
  "await (Never, l) f = (Never, l)"
  by (simp_all add: await_def split: prod.splits)

lemma try_catch_simps:
  "try_catch (Returns v, l) h = (Returns v, l)"
  "try_catch (Throws e, l) h = (fst (h e), l @ snd (h e))"
  "try_catch (Never, l) h = (Never, l)"
  by (simp_all add: try_catch_def split: prod.splits)

lemma fetch_simps:
  "fetch c Pending = (Never, [c])"
  "fetch c Rejected = (Throws Rejection, [c])"
  "fetch c (Response ok body) = (Returns (ok, body), [c])"
  by (simp_all add: fetch_def)

lemma json_simps:
  "json None = (Throws SyntaxError, [])"
  "json (Some d) = (Returns d, [])"
  by (simp_all add: json_def throw_def ret_def)

lemmas run_simps = await_simps try_catch_simps fetch_simps json_simps ret_def throw_def invoke_def

lemmas run_defs = await_simps try_catch_simps fetch_def json_def ret_def throw_def invoke_def

lemma run_cases:
  obtains (Returns) v l where "m = (Returns v, l)"
        | (Throws) e l where "m = (Throws e, l)"
        | (Never) l where "m = (Never, l)"
  by (cases m; cases "fst m") auto

lemma try_catch_returns:
  assumes "\<And>e. \<exists>v. fst (h e) = Returns v"
  shows "(\<exists>v. fst (try_catch m h) = Returns v) \<or> fst (try_catch m h) = Never"
  using assms by (cases m rule: run_cases) (auto simp: try_catch_simps)


subsection \<open>The two providers\<close>

lemma callLLM7_calls: "snd (callLLM7 w) = [CallLLM7]"
  by (simp add: callLLM7_def run_defs split: fetched.splits option.splits llm7_json.splits)

lemma callLLM7_Never: "fst (callLLM7 w) = Never \<longleftrightarrow> llm7 w = Pending"
  by (simp add: callLLM7_def run_defs split: fetched.splits option.splits llm7_json.splits)

lemma callLLM7_failed: "failed (llm7 w) \<Longrightarrow> \<exists>e. fst (callLLM7 w) = Throws e"
  by (auto simp add: callLLM7_def failed_def run_defs split: fetched.splits)

lemma tryModel_calls: "snd (tryModel w model) = [CallHuggingFace model]"
  by (simp add: tryModel_def run_defs split: fetched.splits option.splits hf_json.splits)

lemma tryModel_no_throw: "fst (tryModel w model) \<noteq> Throws e"
  by (simp add: tryModel_def run_defs split: fetched.splits option.splits hf_json.splits)

lemma tryModel_Never: "fst (tryModel w model) = Never \<longleftrightarrow> huggingFace w model = Pending"
  by (simp add: tryModel_def run_defs split: fetched.splits option.splits hf_json.splits)

lemma tryModel_failed: "failed (huggingFace w model) \<Longrightarrow> fst (tryModel w model) = Returns None"
  by (auto simp add: tryModel_def failed_def run_defs split: fetched.splits)

lemma tryModels_hit:
  "fst (tryModel w model) = Returns (Some text) \<Longrightarrow>
   tryModels w (model # rest) = (Returns text, [CallHuggingFace model])"
  using tryModel_calls[of w model]
  by (cases "tryModel w model") (simp add: run_simps)

lemma tryModels_stall:
  "fst (tryModel w model) = Never \<Longrightarrow>
   tryModels w (model # rest) = (Never, [CallHuggingFace model])"
  using tryModel_calls[of w model]
  by (cases "tryModel w model") (simp add: run_simps)

lemma tryModels_skip:
  "list_all (\<lambda>model. fst (tryModel w model) = Returns None) before \<Longrightarrow>
   tryModels w (before @ rest)
     = (fst (tryModels w rest), map CallHuggingFace before @ snd (tryModels w rest))"
proof (induction before)
  case Nil
  then show ?case by simp
next
  case (Cons model before)
  then have "tryModel w model = (Returns None, [CallHuggingFace model])"
    using tryModel_calls[of w model] by (cases "tryModel w model") simp
  with Cons show ?case by (simp add: run_simps)
qed


lemma try_catch_rethrow: "try_catch m throw = m"
  by (cases m rule: run_cases) (simp_all add: run_simps)

lemma callHuggingFace_tryModels: "callHuggingFace w = tryModels w models"
  unfolding callHuggingFace_def by (rule try_catch_rethrow[unfolded throw_def[abs_def]] try_catch_rethrow)

subsection \<open>The lookups\<close>









subsection \<open>The response generator\<close>

lemma generateSarcasticResponse_gathered:
  assumes "gatherContext w userMessage userIP userLocation = (Returns contextInfo, lg)"
  shows "generateSarcasticResponse w userMessage history userIP userLocation =
     (case fst (callLLM7 w) of
        Returns v \<Rightarrow> (Returns v, lg @ [CallLLM7])
      | Never \<Rightarrow> (Never, lg @ [CallLLM7])
      | Throws e \<Rightarrow>
          (case fst (callHuggingFace w) of
             Returns r \<Rightarrow> (Returns (if r \<noteq> [] then r else backupBrainReply),
                            lg @ [CallLLM7] @ snd (callHuggingFace w))
           | Never \<Rightarrow> (Never, lg @ [CallLLM7] @ snd (callHuggingFace w))
           | Throws e' \<Rightarrow>
               (Returns (generateIntelligentFallback userMessage (Some contextInfo)),
                lg @ [CallLLM7] @ snd (callHuggingFace w))))"
proof -
  obtain r1 where r1: "callLLM7 w = (r1, [CallLLM7])"
    using callLLM7_calls[of w] by (cases "callLLM7 w") simp
  obtain r2 l2 where r2: "callHuggingFace w = (r2, l2)"
    by (cases "callHuggingFace w")
  show ?thesis
    unfolding generateSarcasticResponse_def assms r1 r2
    by (cases r1; cases r2) (simp_all add: run_simps)
qed



lemma models_fail:
  "list_all (\<lambda>model. failed (huggingFace w model)) ms \<Longrightarrow>
   list_all (\<lambda>model. fst (tryModel w model) = Returns None) ms"
  by (induction ms) (simp_all add: tryModel_failed)








subsection \<open>The image generators\<close>

lemma generateImageDALLE_no_throw: "fst (generateImageDALLE w prompt) \<noteq> Throws e"
  by (cases "generators w FreeDALLE"; cases "generators w Pollinations";
      cases "generators w Craiyon")
     (simp_all add: generateImageDALLE_def generate_def run_defs)

lemma generateImage_first_stage: "generateImage w prompt = generateImageDALLE w prompt"
proof (cases "generateImageDALLE w prompt" rule: run_cases)
  case (Throws e l)
  with generateImageDALLE_no_throw[of w prompt e] show ?thesis by simp
qed (simp_all add: generateImage_def run_simps)

lemma generateImageDALLE_calls:
  "set (snd (generateImageDALLE w prompt))
     \<subseteq> {CallGenerator FreeDALLE, CallGenerator Pollinations, CallGenerator Craiyon}"
  by (cases "generators w FreeDALLE"; cases "generators w Pollinations";
      cases "generators w Craiyon")
     (simp_all add: generateImageDALLE_def generate_def run_defs)

lemma generateImageDALLE_first:
  "generators w FreeDALLE = Returns (Some url) \<Longrightarrow> url \<noteq> [] \<Longrightarrow>
   generateImageDALLE w prompt = (Returns url, [CallGenerator FreeDALLE])"
  by (simp add: generateImageDALLE_def generate_def nonempty_def run_defs)

text \<open>
  Claim C2, as the code has it. When the call to LLM7 succeeds, the response generator
  returns its value and contacts no Hugging Face model. When LLM7 fails and a Hugging
  Face model is the first to deliver a text, the generator returns that text, or a
  fixed apology in its place when the text is empty after trimming, and contacts no
  later model. The image generator returns what its first stage returns, and only the
  generators of that stage are called; when the very first generator delivers, it is
  the only one called.
\<close>

theorem first_success_wins:
  "(fst (gatherContext w userMessage userIP userLocation) = Returns contextInfo
      \<and> fst (callLLM7 w) = Returns v \<longrightarrow>
    generateSarcasticResponse w userMessage history userIP userLocation
      = (Returns v, snd (gatherContext w userMessage userIP userLocation) @ [CallLLM7]))
   \<and> (fst (gatherContext w userMessage userIP userLocation) = Returns contextInfo
      \<and> fst (callLLM7 w) = Throws e \<and> models = before @ model # rest
      \<and> list_all (\<lambda>model. fst (tryModel w model) = Returns None) before
      \<and> fst (tryModel w model) = Returns (Some text) \<longrightarrow>
    generateSarcasticResponse w userMessage history userIP userLocation
      = (Returns (if text \<noteq> [] then text else backupBrainReply),
         snd (gatherContext w userMessage userIP userLocation) @ [CallLLM7]
           @ map CallHuggingFace before @ [CallHuggingFace model]))
   \<and> (fst (generateImageDALLE w prompt) = Returns url \<longrightarrow>
       generateImage w prompt = generateImageDALLE w prompt
       \<and> set (snd (generateImage w prompt))
            \<subseteq> {CallGenerator FreeDALLE, CallGenerator Pollinations, CallGenerator Craiyon})
   \<and> (generators w FreeDALLE = Returns (Some url) \<and> url \<noteq> [] \<longrightarrow>
       generateImage w prompt = (Returns url, [CallGenerator FreeDALLE]))"
proof (intro conjI impI)
  assume a: "fst (gatherContext w userMessage userIP userLocation) = Returns contextInfo
      \<and> fst (callLLM7 w) = Returns v"
  then have g: "gatherContext w userMessage userIP userLocation
      = (Returns contextInfo, snd (gatherContext w userMessage userIP userLocation))"
    by (cases "gatherContext w userMessage userIP userLocation") simp
  show "generateSarcasticResponse w userMessage history userIP userLocation
      = (Returns v, snd (gatherContext w userMessage userIP userLocation) @ [CallLLM7])"
    by (subst generateSarcasticResponse_gathered[OF g]) (simp add: a)
next
  assume a: "fst (gatherContext w userMessage userIP userLocation) = Returns contextInfo
      \<and> fst (callLLM7 w) = Throws e \<and> models = before @ model # rest
      \<and> list_all (\<lambda>model. fst (tryModel w model) = Returns None) before
      \<and> fst (tryModel w model) = Returns (Some text)"
  then have g: "gatherContext w userMessage userIP userLocation
      = (Returns contextInfo, snd (gatherContext w userMessage userIP userLocation))"
    by (cases "gatherContext w userMessage userIP userLocation") simp
  from a have ms: "models = before @ model # rest"
    and skip: "list_all (\<lambda>model. fst (tryModel w model) = Returns None) before"
    and hit: "fst (tryModel w model) = Returns (Some text)"
    by simp_all
  have hf: "callHuggingFace w
      = (Returns text, map CallHuggingFace before @ [CallHuggingFace model])"
    unfolding callHuggingFace_tryModels ms
    by (simp add: tryModels_skip[OF skip] tryModels_hit[OF hit] del: tryModels.simps)
  show "generateSarcasticResponse w userMessage history userIP userLocation
      = (Returns (if text \<noteq> [] then text else backupBrainReply),
         snd (gatherContext w userMessage userIP userLocation) @ [CallLLM7]
           @ map CallHuggingFace before @ [CallHuggingFace model])"
    by (subst generateSarcasticResponse_gathered[OF g]) (simp add: a hf)
next
  show "generateImage w prompt = generateImageDALLE w prompt"
    by (rule generateImage_first_stage)
  show "set (snd (generateImage w prompt))
            \<subseteq> {CallGenerator FreeDALLE, CallGenerator Pollinations, CallGenerator Craiyon}"
    unfolding generateImage_first_stage by (rule generateImageDALLE_calls)
next
  assume "generators w FreeDALLE = Returns (Some url) \<and> url \<noteq> []"
  then show "generateImage w prompt = (Returns url, [CallGenerator FreeDALLE])"
    by (simp add: generateImage_first_stage generateImageDALLE_first)
qed

theorem first_success_wins_witness:
  "fst (gatherContext llm7World (str ''hello'') (str ''10.0.0.1'') None) = Returns quietContext
   \<and> fst (callLLM7 llm7World) = Returns (str ''Obviously.'')
   \<and> generateSarcasticResponse llm7World (str ''hello'') [] (str ''10.0.0.1'') None
       = (Returns (str ''Obviously.''), [CallIpApi, CallLLM7])
   \<and> fst (gatherContext backupWorld (str ''hello'') (str ''10.0.0.1'') None) = Returns quietContext
   \<and> fst (callLLM7 backupWorld) = Throws Rejection
   \<and> models = [str ''microsoft/phi-2''] @ str ''microsoft/DialoGPT-medium''
        # [str ''facebook/blenderbot-400M-distill'']
   \<and> list_all (\<lambda>model. fst (tryModel backupWorld model) = Returns None) [str ''microsoft/phi-2'']
   \<and> fst (tryModel backupWorld (str ''microsoft/DialoGPT-medium'')) = Returns (Some (str ''Fine.''))
   \<and> generateSarcasticResponse backupWorld (str ''hello'') [] (str ''10.0.0.1'') None
       = (Returns (str ''Fine.''),
          [CallIpApi, CallLLM7, CallHuggingFace (str ''microsoft/phi-2''),
           CallHuggingFace (str ''microsoft/DialoGPT-medium'')])
   \<and> fst (generateImageDALLE imageWorld (str ''a cat'')) = Returns (str ''https://img.example/1.png'')
   \<and> generators imageWorld FreeDALLE = Returns (Some (str ''https://img.example/1.png''))
   \<and> str ''https://img.example/1.png'' \<noteq> []
   \<and> generateImage imageWorld (str ''a cat'')
        = (Returns (str ''https://img.example/1.png''), [CallGenerator FreeDALLE])"
proof -
  have g1: "gatherContext llm7World (str ''hello'') (str ''10.0.0.1'') None
      = (Returns quietContext, [CallIpApi])"
    by (simp add: gatherContext_def getRealTimeData_def getLocationInfo_def getCurrentTime_def
      truthy_def nonempty_def Let_def quietWorld_def llm7World_def quietContext_def run_defs)
  have g2: "gatherContext backupWorld (str ''hello'') (str ''10.0.0.1'') None
      = (Returns quietContext, [CallIpApi])"
    by (simp add: gatherContext_def getRealTimeData_def getLocationInfo_def getCurrentTime_def
      truthy_def nonempty_def Let_def quietWorld_def backupWorld_def quietContext_def run_defs)
  have l1: "fst (callLLM7 llm7World) = Returns (str ''Obviously.'')"
    by (simp add: callLLM7_def llm7World_def quietWorld_def run_defs str_simps)
  have l2: "fst (callLLM7 backupWorld) = Throws Rejection"
    by (simp add: callLLM7_def backupWorld_def quietWorld_def run_defs)
  have m: "models = [str ''microsoft/phi-2''] @ str ''microsoft/DialoGPT-medium''
        # [str ''facebook/blenderbot-400M-distill'']"
    by (simp add: models_def)
  have b: "list_all (\<lambda>model. fst (tryModel backupWorld model) = Returns None)
      [str ''microsoft/phi-2'']"
    by (simp add: tryModel_def backupWorld_def quietWorld_def run_defs str_simps)
  have "trim (str '' Fine. '') = str ''Fine.''"
    by (simp add: trim_def str_def space_unit_def)
  then have t: "fst (tryModel backupWorld (str ''microsoft/DialoGPT-medium''))
      = Returns (Some (str ''Fine.''))"
    by (simp add: tryModel_def backupWorld_def quietWorld_def run_defs str_simps)
  have ne: "str ''Fine.'' \<noteq> []" by (simp add: str_simps)
  have i1: "generators imageWorld FreeDALLE = Returns (Some (str ''https://img.example/1.png''))"
    by (simp add: imageWorld_def quietWorld_def)
  have i2: "str ''https://img.example/1.png'' \<noteq> []" by (simp add: str_simps)
  have i3: "fst (generateImageDALLE imageWorld (str ''a cat''))
      = Returns (str ''https://img.example/1.png'')"
    by (simp add: generateImageDALLE_first[OF i1 i2])
  note th1 = first_success_wins[of llm7World "str ''hello''" "str ''10.0.0.1''" None quietContext
      "str ''Obviously.''" "[]"]
  note th2 = first_success_wins[of backupWorld "str ''hello''" "str ''10.0.0.1''" None quietContext
      _ "[]" Rejection "[str ''microsoft/phi-2'']" "str ''microsoft/DialoGPT-medium''"
      "[str ''facebook/blenderbot-400M-distill'']" "str ''Fine.''"]
  note th3 = first_success_wins[of imageWorld _ _ _ _ _ _ _ _ _ _ _ "str ''a cat''"
      "str ''https://img.example/1.png''"]
  from th1 g1 l1 have r1: "generateSarcasticResponse llm7World (str ''hello'') [] (str ''10.0.0.1'') None
       = (Returns (str ''Obviously.''), [CallIpApi, CallLLM7])" by simp
  from th2 g2 l2 m b t ne have r2: "generateSarcasticResponse backupWorld (str ''hello'') []
      (str ''10.0.0.1'') None
       = (Returns (str ''Fine.''),
          [CallIpApi, CallLLM7, CallHuggingFace (str ''microsoft/phi-2''),
           CallHuggingFace (str ''microsoft/DialoGPT-medium'')])" by simp
  from th3 i1 i2 have r3: "generateImage imageWorld (str ''a cat'')
        = (Returns (str ''https://img.example/1.png''), [CallGenerator FreeDALLE])" by simp
  from g1 g2 l1 l2 m b t i1 i2 i3 r1 r2 r3 show ?thesis by simp
qed

text \<open>
  Claim C2 as stated fails: the first Hugging Face model answers with a blank, the call
  to Hugging Face returns the empty text, and the generator returns its apology instead.
\<close>

theorem empty_answer_is_replaced:
  "fst (callHuggingFace blankWorld) = Returns []
   \<and> fst (generateSarcasticResponse blankWorld (str ''hello'') [] (str ''10.0.0.1'') None)
       = Returns backupBrainReply
   \<and> backupBrainReply \<noteq> []"
proof -
  have g: "gatherContext blankWorld (str ''hello'') (str ''10.0.0.1'') None
      = (Returns quietContext, [CallIpApi])"
    by (simp add: gatherContext_def getRealTimeData_def getLocationInfo_def getCurrentTime_def
      truthy_def nonempty_def Let_def quietWorld_def blankWorld_def quietContext_def run_defs)
  have l: "fst (callLLM7 blankWorld) = Throws Rejection"
    by (simp add: callLLM7_def blankWorld_def quietWorld_def run_defs)
  have "trim (str '' '') = []"
    by (simp add: trim_def str_def space_unit_def)
  then have t: "fst (tryModel blankWorld (str ''microsoft/phi-2'')) = Returns (Some [])"
    by (simp add: tryModel_def blankWorld_def quietWorld_def run_defs str_simps)
  have h: "callHuggingFace blankWorld = (Returns [], [CallHuggingFace (str ''microsoft/phi-2'')])"
    unfolding callHuggingFace_tryModels models_def by (rule tryModels_hit[OF t])
  have b: "backupBrainReply \<noteq> []"
    by (simp add: backupBrainReply_def str_simps)
  show ?thesis
    by (subst generateSarcasticResponse_gathered[OF g]) (simp add: l h b)
qed

subsection \<open>A provider that never answers\<close>

lemma callLLM7_Pending: "llm7 w = Pending \<Longrightarrow> callLLM7 w = (Never, [CallLLM7])"
  using callLLM7_calls[of w] callLLM7_Never[of w] by (cases "callLLM7 w") simp

lemma callHuggingFace_first_call:
  "\<exists>l. snd (callHuggingFace w) = CallHuggingFace (hd models) # l"
proof -
  obtain r where "tryModel w (hd models) = (r, [CallHuggingFace (hd models)])"
    using tryModel_calls[of w "hd models"] by (cases "tryModel w (hd models)") simp
  then show ?thesis
    unfolding callHuggingFace_tryModels
    by (cases r) (auto simp add: models_def run_simps split: option.splits)
qed

text \<open>
  Claim C3, as the code has it. The chat service sets no timeout on a provider. When
  the request to LLM7 never settles, the response generator never returns and no
  Hugging Face model is contacted; when the request to a Hugging Face model never
  settles, the generator never returns and no later model is contacted. Only a provider
  whose request fails is followed by the next one: after a failed request to LLM7 the
  first Hugging Face model is contacted.
\<close>

theorem no_timeout_on_providers:
  "(fst (gatherContext w userMessage userIP userLocation) = Returns contextInfo
      \<and> llm7 w = Pending \<longrightarrow>
    generateSarcasticResponse w userMessage history userIP userLocation
      = (Never, snd (gatherContext w userMessage userIP userLocation) @ [CallLLM7]))
   \<and> (fst (gatherContext w userMessage userIP userLocation) = Returns contextInfo
      \<and> fst (callLLM7 w) = Throws e \<and> models = before @ model # rest
      \<and> list_all (\<lambda>model. fst (tryModel w model) = Returns None) before
      \<and> huggingFace w model = Pending \<longrightarrow>
    generateSarcasticResponse w userMessage history userIP userLocation
      = (Never, snd (gatherContext w userMessage userIP userLocation) @ [CallLLM7]
           @ map CallHuggingFace before @ [CallHuggingFace model]))
   \<and> (fst (gatherContext w userMessage userIP userLocation) = Returns contextInfo
      \<and> failed (llm7 w) \<longrightarrow>
    prefix (snd (gatherContext w userMessage userIP userLocation)
              @ [CallLLM7, CallHuggingFace (hd models)])
           (snd (generateSarcasticResponse w userMessage history userIP userLocation)))"
proof (intro conjI impI)
  assume a: "fst (gatherContext w userMessage userIP userLocation) = Returns contextInfo
      \<and> llm7 w = Pending"
  then have g: "gatherContext w userMessage userIP userLocation
      = (Returns contextInfo, snd (gatherContext w userMessage userIP userLocation))"
    by (cases "gatherContext w userMessage userIP userLocation") simp
  show "generateSarcasticResponse w userMessage history userIP userLocation
      = (Never, snd (gatherContext w userMessage userIP userLocation) @ [CallLLM7])"
    by (subst generateSarcasticResponse_gathered[OF g]) (simp add: a callLLM7_Pending)
next
  assume a: "fst (gatherContext w userMessage userIP userLocation) = Returns contextInfo
      \<and> fst (callLLM7 w) = Throws e \<and> models = before @ model # rest
      \<and> list_all (\<lambda>model. fst (tryModel w model) = Returns None) before
      \<and> huggingFace w model = Pending"
  then have g: "gatherContext w userMessage userIP userLocation
      = (Returns contextInfo, snd (gatherContext w userMessage userIP userLocation))"
    by (cases "gatherContext w userMessage userIP userLocation") simp
  from a have ms: "models = before @ model # rest"
    and skip: "list_all (\<lambda>model. fst (tryModel w model) = Returns None) before"
    and stall: "fst (tryModel w model) = Never"
    by (simp_all add: tryModel_Never)
  have hf: "callHuggingFace w
      = (Never, map CallHuggingFace before @ [CallHuggingFace model])"
    unfolding callHuggingFace_tryModels ms
    by (simp add: tryModels_skip[OF skip] tryModels_stall[OF stall] del: tryModels.simps)
  show "generateSarcasticResponse w userMessage history userIP userLocation
      = (Never, snd (gatherContext w userMessage userIP userLocation) @ [CallLLM7]
           @ map CallHuggingFace before @ [CallHuggingFace model])"
    by (subst generateSarcasticResponse_gathered[OF g]) (simp add: a hf)
next
  assume a: "fst (gatherContext w userMessage userIP userLocation) = Returns contextInfo
      \<and> failed (llm7 w)"
  then have g: "gatherContext w userMessage userIP userLocation
      = (Returns contextInfo, snd (gatherContext w userMessage userIP userLocation))"
    by (cases "gatherContext w userMessage userIP userLocation") simp
  from a obtain e where e: "fst (callLLM7 w) = Throws e"
    using callLLM7_failed by blast
  obtain l where l: "snd (callHuggingFace w) = CallHuggingFace (hd models) # l"
    using callHuggingFace_first_call by blast
  show "prefix (snd (gatherContext w userMessage userIP userLocation)
              @ [CallLLM7, CallHuggingFace (hd models)])
           (snd (generateSarcasticResponse w userMessage history userIP userLocation))"
    by (subst generateSarcasticResponse_gathered[OF g])
       (simp add: e l split: outcome.splits)
qed

theorem no_timeout_on_providers_witness:
  "fst (gatherContext stalledWorld (str ''hello'') (str ''10.0.0.1'') None) = Returns quietContext
   \<and> llm7 stalledWorld = Pending
   \<and> generateSarcasticResponse stalledWorld (str ''hello'') [] (str ''10.0.0.1'') None
       = (Never, [CallIpApi, CallLLM7])
   \<and> fst (gatherContext stalledModelWorld (str ''hello'') (str ''10.0.0.1'') None)
       = Returns quietContext
   \<and> fst (callLLM7 stalledModelWorld) = Throws Rejection
   \<and> models = [str ''microsoft/phi-2''] @ str ''microsoft/DialoGPT-medium''
        # [str ''facebook/blenderbot-400M-distill'']
   \<and> list_all (\<lambda>model. fst (tryModel stalledModelWorld model) = Returns None)
        [str ''microsoft/phi-2'']
   \<and> huggingFace stalledModelWorld (str ''microsoft/DialoGPT-medium'') = Pending
   \<and> generateSarcasticResponse stalledModelWorld (str ''hello'') [] (str ''10.0.0.1'') None
       = (Never, [CallIpApi, CallLLM7, CallHuggingFace (str ''microsoft/phi-2''),
                  CallHuggingFace (str ''microsoft/DialoGPT-medium'')])
   \<and> failed (llm7 stalledModelWorld)
   \<and> prefix ([CallIpApi] @ [CallLLM7, CallHuggingFace (hd models)])
        (snd (generateSarcasticResponse stalledModelWorld (str ''hello'') [] (str ''10.0.0.1'')
                None))"
proof -
  have g1: "gatherContext stalledWorld (str ''hello'') (str ''10.0.0.1'') None
      = (Returns quietContext, [CallIpApi])"
    by (simp add: gatherContext_def getRealTimeData_def getLocationInfo_def getCurrentTime_def
      truthy_def nonempty_def Let_def quietWorld_def stalledWorld_def quietContext_def run_defs)
  have g2: "gatherContext stalledModelWorld (str ''hello'') (str ''10.0.0.1'') None
      = (Returns quietContext, [CallIpApi])"
    by (simp add: gatherContext_def getRealTimeData_def getLocationInfo_def getCurrentTime_def
      truthy_def nonempty_def Let_def quietWorld_def stalledModelWorld_def quietContext_def
      run_defs)
  have p1: "llm7 stalledWorld = Pending"
    by (simp add: stalledWorld_def)
  have l2: "fst (callLLM7 stalledModelWorld) = Throws Rejection"
    by (simp add: callLLM7_def stalledModelWorld_def quietWorld_def run_defs)
  have f2: "failed (llm7 stalledModelWorld)"
    by (simp add: stalledModelWorld_def quietWorld_def failed_def)
  have m: "models = [str ''microsoft/phi-2''] @ str ''microsoft/DialoGPT-medium''
        # [str ''facebook/blenderbot-400M-distill'']"
    by (simp add: models_def)
  have b: "list_all (\<lambda>model. fst (tryModel stalledModelWorld model) = Returns None)
      [str ''microsoft/phi-2'']"
    by (simp add: tryModel_def stalledModelWorld_def quietWorld_def run_defs str_simps)
  have p2: "huggingFace stalledModelWorld (str ''microsoft/DialoGPT-medium'') = Pending"
    by (simp add: stalledModelWorld_def quietWorld_def str_simps)
  note th1 = no_timeout_on_providers[of stalledWorld "str ''hello''" "str ''10.0.0.1''" None
      quietContext "[]"]
  note th2 = no_timeout_on_providers[of stalledModelWorld "str ''hello''" "str ''10.0.0.1''" None
      quietContext "[]" Rejection "[str ''microsoft/phi-2'']" "str ''microsoft/DialoGPT-medium''"
      "[str ''facebook/blenderbot-400M-distill'']"]
  from th1 g1 p1 have r1: "generateSarcasticResponse stalledWorld (str ''hello'') []
      (str ''10.0.0.1'') None = (Never, [CallIpApi, CallLLM7])" by simp
  from th2 g2 l2 m b p2 have r2: "generateSarcasticResponse stalledModelWorld (str ''hello'') []
      (str ''10.0.0.1'') None
       = (Never, [CallIpApi, CallLLM7, CallHuggingFace (str ''microsoft/phi-2''),
                  CallHuggingFace (str ''microsoft/DialoGPT-medium'')])" by simp
  from th2 g2 f2 have r3: "prefix ([CallIpApi] @ [CallLLM7, CallHuggingFace (hd models)])
        (snd (generateSarcasticResponse stalledModelWorld (str ''hello'') [] (str ''10.0.0.1'')
                None))" by simp
  from g1 g2 p1 l2 f2 m b p2 r1 r2 r3 show ?thesis by simp
qed

text \<open>
  Claim C3 as stated fails: LLM7 never answers, and the generator neither abandons the
  request nor tries Hugging Face.
\<close>

theorem stalled_provider_blocks:
  "llm7 stalledWorld = Pending
   \<and> generateSarcasticResponse stalledWorld (str ''hello'') [] (str ''10.0.0.1'') None
       = (Never, [CallIpApi, CallLLM7])"
proof -
  have g: "gatherContext stalledWorld (str ''hello'') (str ''10.0.0.1'') None
      = (Returns quietContext, [CallIpApi])"
    by (simp add: gatherContext_def getRealTimeData_def getLocationInfo_def getCurrentTime_def
      truthy_def nonempty_def Let_def quietWorld_def stalledWorld_def quietContext_def run_defs)
  have p: "llm7 stalledWorld = Pending"
    by (simp add: stalledWorld_def)
  show ?thesis
    by (subst generateSarcasticResponse_gathered[OF g]) (simp add: p callLLM7_Pending)
qed

subsection \<open>Lookups that fail\<close>


















end
